theory Spec2Isabelle
  imports Complex_Main
begin

section \<open>Conventions of the embedding\<close>

text \<open>
  The rotation engine of \<^verbatim>\<open>lighter_aster_hedge.py\<close> is embedded function by function.
  Python \<^verbatim>\<open>float\<close> values are exact rationals (\<^typ>\<open>rat\<close>): the development is about
  the arithmetic the code writes down, not about binary rounding. \<^verbatim>\<open>Optional[float]\<close> is
  \<^typ>\<open>rat option\<close>, a \<^verbatim>\<open>str\<close> is a \<^typ>\<open>string\<close> of ASCII characters, and an exception
  is represented by the text that \<^verbatim>\<open>str(exc)\<close> returns. The \<^verbatim>\<open>Decimal\<close> arithmetic of the
  tick helpers is exact as well, and an ISO timestamp is the number of hours it denotes.
  The value of every awaited call on a venue client is an argument of the function that
  awaits it.
\<close>

subsection \<open>Strings\<close>

definition lower_char :: "char \<Rightarrow> char" where
  "lower_char c =
     (let n = (of_char c :: nat) in if 65 \<le> n \<and> n \<le> 90 then char_of (n + 32) else c)"

text \<open>\<^verbatim>\<open>str.lower()\<close> on ASCII text.\<close>

definition lower :: "string \<Rightarrow> string" where
  "lower s = map lower_char s"

text \<open>\<^verbatim>\<open>s.startswith(p)\<close> and \<^verbatim>\<open>sub in s\<close>, scanning \<^verbatim>\<open>s\<close> from the left.\<close>

fun starts_with :: "string \<Rightarrow> string \<Rightarrow> bool" where
  "starts_with [] s = True"
| "starts_with (p # ps) [] = False"
| "starts_with (p # ps) (c # cs) = (p = c \<and> starts_with ps cs)"

fun str_contains :: "string \<Rightarrow> string \<Rightarrow> bool" where
  "str_contains sub [] = (sub = [])"
| "str_contains sub (c # cs) = (starts_with sub (c # cs) \<or> str_contains sub cs)"

subsection \<open>Rate-limit handling\<close>

text \<open>\<^verbatim>\<open>is_rate_limit_error(exc)\<close>; the argument is \<^verbatim>\<open>str(exc)\<close>.\<close>

definition is_rate_limit_error :: "string \<Rightarrow> bool" where
  "is_rate_limit_error exc =
     (let error_str = lower exc in
        str_contains ''429'' error_str \<or>
        str_contains ''too many requests'' error_str \<or>
        str_contains ''23000'' error_str \<or>
        str_contains ''rate limit'' error_str \<or>
        str_contains ''ratelimit'' error_str)"

text \<open>
  \<^verbatim>\<open>retry_with_backoff\<close>. The wrapped coroutine is the function \<open>func\<close> from the
  attempt number to what that call does; \<open>rnd k\<close> is the value of \<^verbatim>\<open>random()\<close> drawn in
  attempt \<open>k\<close>, and \<^verbatim>\<open>random.uniform(a, b)\<close> is \<^verbatim>\<open>a + (b - a) * random()\<close>. The result
  is the list of the delays slept, in order, and how the wrapper ends.
\<close>

datatype 'a outcome = Returns 'a | Raises string

datatype 'a retry_result =
    Returned 'a
  | ReturnedNone
  | Reraised string
  | RateLimitError int string

definition uniform :: "rat \<Rightarrow> rat \<Rightarrow> rat \<Rightarrow> rat" where
  "uniform a b u = a + (b - a) * u"

function retry_with_backoff_from ::
  "(nat \<Rightarrow> 'a outcome) \<Rightarrow> (nat \<Rightarrow> rat) \<Rightarrow> int \<Rightarrow> rat \<Rightarrow> rat \<Rightarrow> rat \<Rightarrow> bool \<Rightarrow>
   string option \<Rightarrow> nat \<Rightarrow> rat list \<times> 'a retry_result"
where
  "retry_with_backoff_from func rnd max_retries initial_delay backoff_factor max_delay jitter
       last_exception attempt =
     (if int attempt < max_retries + 1 then
        (case func attempt of
           Returns result \<Rightarrow> ([], Returned result)
         | Raises exc \<Rightarrow>
             if \<not> is_rate_limit_error exc then ([], Reraised exc)
             else if max_retries \<le> int attempt then ([], RateLimitError max_retries exc)
             else
               let delay = min (initial_delay * backoff_factor ^ attempt) max_delay;
                   delay = (if jitter
                            then delay + uniform (- (delay * (1 / 4))) (delay * (1 / 4)) (rnd attempt)
                            else delay);
                   rest = retry_with_backoff_from func rnd max_retries initial_delay
                            backoff_factor max_delay jitter (Some exc) (Suc attempt)
               in (delay # fst rest, snd rest))
      else (case last_exception of
              None \<Rightarrow> ([], ReturnedNone)
            | Some exc \<Rightarrow> ([], Reraised exc)))"
  by pat_completeness auto
termination
  by (relation "measure (\<lambda>(func, rnd, max_retries, i, b, m, j, l, attempt).
        nat (max_retries + 1 - int attempt))") auto

definition retry_with_backoff ::
  "(nat \<Rightarrow> 'a outcome) \<Rightarrow> (nat \<Rightarrow> rat) \<Rightarrow> int \<Rightarrow> rat \<Rightarrow> rat \<Rightarrow> rat \<Rightarrow> bool \<Rightarrow>
   rat list \<times> 'a retry_result"
where
  "retry_with_backoff func rnd max_retries initial_delay backoff_factor max_delay jitter =
     retry_with_backoff_from func rnd max_retries initial_delay backoff_factor max_delay jitter
       None 0"

text \<open>The defaults of the signature: \<^verbatim>\<open>max_retries=3, initial_delay=1.0, backoff_factor=2.0,
  max_delay=30.0, jitter=True\<close>.\<close>

definition retry_with_backoff_default ::
  "(nat \<Rightarrow> 'a outcome) \<Rightarrow> (nat \<Rightarrow> rat) \<Rightarrow> rat list \<times> 'a retry_result"
where
  "retry_with_backoff_default func rnd = retry_with_backoff func rnd 3 1 2 30 True"

subsection \<open>Helper functions\<close>

text \<open>Truthiness of an \<^verbatim>\<open>Optional[float]\<close>: \<^verbatim>\<open>None\<close> and \<^verbatim>\<open>0.0\<close> are false.\<close>

definition truthy :: "rat option \<Rightarrow> bool" where
  "truthy p = (case p of None \<Rightarrow> False | Some v \<Rightarrow> v \<noteq> 0)"

definition num :: "rat option \<Rightarrow> rat" where
  "num p = (case p of None \<Rightarrow> 0 | Some v \<Rightarrow> v)"

datatype error =
    NoUsablePrices
  | InvalidMidPrice
  | ZeroDivisionError
  | NoQuotesEitherVenue
  | NoLighterPrices
  | NoAsterPrices
  | SizeRoundsToZero
  | OrderSizeTooSmall
  | IdenticalExchanges
  | NoLighterReferencePrice
  | UnsupportedLongExchange
  | UnsupportedShortExchange
  | OrderPlacementFailed






definition get_avg_mid ::
  "rat option \<Rightarrow> rat option \<Rightarrow> rat option \<Rightarrow> rat option \<Rightarrow> error + rat"
where
  "get_avg_mid lighter_bid lighter_ask aster_bid aster_ask =
     (let mids =
            (if truthy lighter_bid \<and> truthy lighter_ask
             then [(num lighter_bid + num lighter_ask) / 2] else []) @
            (if truthy aster_bid \<and> truthy aster_ask
             then [(num aster_bid + num aster_ask) / 2] else [])
      in
        if mids \<noteq> [] then Inr (sum_list mids / of_nat (length mids))
        else if truthy lighter_bid \<and> truthy lighter_ask
          then Inr ((num lighter_bid + num lighter_ask) / 2)
        else if truthy aster_bid \<and> truthy aster_ask
          then Inr ((num aster_bid + num aster_ask) / 2)
        else if truthy lighter_bid \<and> truthy aster_ask
          then Inr ((num lighter_bid + num aster_ask) / 2)
        else if truthy aster_bid \<and> truthy lighter_ask
          then Inr ((num aster_bid + num lighter_ask) / 2)
        else Inl NoUsablePrices)"

text \<open>\<^verbatim>\<open>_calculate_apr\<close> and \<^verbatim>\<open>calculate_stop_loss_percentage\<close>.\<close>

definition calculate_apr :: "rat \<Rightarrow> int \<Rightarrow> rat" where
  "calculate_apr rate periods_per_day = rate * of_int periods_per_day * 365 * 100"

definition calculate_stop_loss_percentage :: "rat \<Rightarrow> rat" where
  "calculate_stop_loss_percentage leverage =
     (if leverage \<le> 0 then 0
      else let liquidation_threshold = 100 / leverage;
               stop_loss_pct = liquidation_threshold * (3 / 4)
           in stop_loss_pct)"

subsection \<open>Opportunity scanner\<close>

text \<open>
  \<^verbatim>\<open>fetch_symbol_spread\<close>, from the two mids that \<^verbatim>\<open>fetch_aster_mid\<close> and
  \<^verbatim>\<open>fetch_lighter_mid\<close> returned (\<^verbatim>\<open>None\<close> when a venue gave no price or its call failed).
  The result is the tuple \<^verbatim>\<open>(spread_pct, aster_mid, lighter_mid)\<close>; the division raises
  when the two mids sum to zero.
\<close>

definition fetch_symbol_spread ::
  "rat option \<Rightarrow> rat option \<Rightarrow> error + (rat option \<times> rat option \<times> rat option)"
where
  "fetch_symbol_spread aster_mid lighter_mid =
     (case (aster_mid, lighter_mid) of
        (Some a, Some l) \<Rightarrow>
          let price_diff = \<bar>a - l\<bar>;
              avg_mid = (a + l) / 2
          in if avg_mid = 0 then Inl ZeroDivisionError
             else Inr (Some (price_diff / avg_mid * 100), aster_mid, lighter_mid)
      | _ \<Rightarrow> Inr (None, aster_mid, lighter_mid))"

text \<open>The dictionary of an available symbol.\<close>

record opportunity =
  symbol :: string
  aster_rate :: rat
  aster_apr :: rat
  lighter_rate :: rat
  lighter_apr :: rat
  long_exch :: string
  short_exch :: string
  net_apr :: rat
  spread_pct :: "rat option"
  aster_mid :: "rat option"
  lighter_mid :: "rat option"

text \<open>
  The dictionaries a symbol's fetch can return: an opportunity (\<^verbatim>\<open>available: True\<close>); a
  symbol with a funding rate missing (\<^verbatim>\<open>missing_on\<close> lists the venues, then
  \<^verbatim>\<open>spread_pct, aster_mid, lighter_mid\<close>); a symbol excluded for its spread
  (\<^verbatim>\<open>excluded_reason: "spread"\<close>, then \<^verbatim>\<open>spread_pct, aster_mid, lighter_mid, aster_rate,
  lighter_rate\<close>); and the dictionary \<^verbatim>\<open>fetch_with_timeout\<close> builds on a timeout or an
  exception (\<^verbatim>\<open>error\<close>).
\<close>

datatype funding_result =
    Opportunity opportunity
  | MissingData string "string list" "rat option" "rat option" "rat option"
  | SpreadExcluded string rat "rat option" "rat option" rat rat
  | FetchError string string

fun available :: "funding_result \<Rightarrow> bool" where
  "available (Opportunity r) = True"
| "available (MissingData s missing sp am lm) = False"
| "available (SpreadExcluded s sp am lm ar lr) = False"
| "available (FetchError s e) = False"

definition fetch_symbol_funding ::
  "string \<Rightarrow> rat option \<Rightarrow> rat option \<Rightarrow> rat option \<Rightarrow> rat option \<Rightarrow> rat \<Rightarrow>
   error + funding_result"
where
  "fetch_symbol_funding symbol' aster_rate_decimal lighter_rate_decimal a_mid l_mid max_spread_pct =
     (case fetch_symbol_spread a_mid l_mid of
        Inl e \<Rightarrow> Inl e
      | Inr (spread, a_mid, l_mid) \<Rightarrow>
          (case (aster_rate_decimal, lighter_rate_decimal) of
             (Some a_rate, Some l_rate) \<Rightarrow>
               if (case spread of None \<Rightarrow> False | Some sp \<Rightarrow> sp > max_spread_pct)
               then Inr (SpreadExcluded symbol' (num spread) a_mid l_mid (a_rate * 100) (l_rate * 100))
               else
                 let a_apr = calculate_apr a_rate 6;
                     l_apr = calculate_apr l_rate 3;
                     long_aster_short_lighter = l_apr - a_apr;
                     long_lighter_short_aster = a_apr - l_apr;
                     (long_e, short_e, net) =
                       (if long_aster_short_lighter \<ge> long_lighter_short_aster
                        then (''Aster'', ''Lighter'', long_aster_short_lighter)
                        else (''Lighter'', ''Aster'', long_lighter_short_aster))
                 in Inr (Opportunity \<lparr>
                      symbol = symbol',
                      aster_rate = a_rate * 100,
                      aster_apr = a_apr,
                      lighter_rate = l_rate * 100,
                      lighter_apr = l_apr,
                      long_exch = long_e,
                      short_exch = short_e,
                      net_apr = net,
                      spread_pct = spread,
                      aster_mid = a_mid,
                      lighter_mid = l_mid \<rparr>)
           | _ \<Rightarrow>
               Inr (MissingData symbol'
                      ((if aster_rate_decimal = None then [''Aster''] else []) @
                       (if lighter_rate_decimal = None then [''Lighter''] else []))
                      spread a_mid l_mid)))"

text \<open>
  What one symbol's task brought back: the two funding rates, the two mids, and whether
  \<^verbatim>\<open>asyncio.wait_for\<close> timed out.
\<close>

record fetched =
  f_symbol :: string
  f_aster_rate :: "rat option"
  f_lighter_rate :: "rat option"
  f_aster_mid :: "rat option"
  f_lighter_mid :: "rat option"
  f_timed_out :: bool

text \<open>\<^verbatim>\<open>str(e)\<close> of an exception; where the message interpolates a symbol, its fixed part.\<close>

fun error_text :: "error \<Rightarrow> string" where
  "error_text ZeroDivisionError = ''float division by zero''"
| "error_text NoUsablePrices = ''No usable prices from either venue.''"
| "error_text InvalidMidPrice = ''Invalid mid price to compute base size.''"
| "error_text NoQuotesEitherVenue = ''Could not fetch quotes from either venue.''"
| "error_text NoLighterPrices = ''Could not fetch any prices from Lighter''"
| "error_text NoAsterPrices = ''Could not fetch any prices from Aster''"
| "error_text SizeRoundsToZero = ''Computed size rounds to zero. Increase notional.''"
| "error_text OrderSizeTooSmall = ''Order size too small. Requirements:''"
| "error_text IdenticalExchanges = ''Long and short exchanges cannot be identical.''"
| "error_text NoLighterReferencePrice = ''Lighter: No reference price available''"
| "error_text UnsupportedLongExchange = ''Unsupported long exchange''"
| "error_text UnsupportedShortExchange = ''Unsupported short exchange''"
| "error_text OrderPlacementFailed =
     ''Delta-neutral order placement failed on at least one exchange.''"

definition fetch_with_timeout :: "string \<Rightarrow> rat \<Rightarrow> fetched \<Rightarrow> funding_result" where
  "fetch_with_timeout quote max_spread_pct f =
     (if f_timed_out f then FetchError (f_symbol f @ quote) ''timeout''
      else
        (case fetch_symbol_funding (f_symbol f @ quote) (f_aster_rate f) (f_lighter_rate f)
                (f_aster_mid f) (f_lighter_mid f) max_spread_pct of
           Inl e \<Rightarrow> FetchError (f_symbol f @ quote) (take 50 (error_text e))
         | Inr r \<Rightarrow> r))"

text \<open>The gathered results of a scan, and the two lists the supervisor splits them into.\<close>

definition gather_results :: "string \<Rightarrow> rat \<Rightarrow> fetched list \<Rightarrow> funding_result list" where
  "gather_results quote max_spread_pct fs = map (fetch_with_timeout quote max_spread_pct) fs"

definition available_of :: "funding_result list \<Rightarrow> funding_result list" where
  "available_of results = filter available results"

definition unavailable_of :: "funding_result list \<Rightarrow> funding_result list" where
  "unavailable_of results = filter (\<lambda>r. \<not> available r) results"

text \<open>\<^verbatim>\<open>r["net_apr"]\<close>, read only on available results.\<close>

fun net_apr_of :: "funding_result \<Rightarrow> rat" where
  "net_apr_of (Opportunity r) = net_apr r"
| "net_apr_of _ = 0"

text \<open>
  \<^verbatim>\<open>available.sort(key=net_apr, reverse=True)\<close> is a stable descending sort; then the
  candidates at or above the threshold, in that order.
\<close>

definition candidates_of :: "rat \<Rightarrow> funding_result list \<Rightarrow> funding_result list" where
  "candidates_of min_net_apr_threshold results =
     filter (\<lambda>r. net_apr_of r \<ge> min_net_apr_threshold)
       (sort_key (\<lambda>r. - net_apr_of r) (available_of results))"

subsection \<open>Opening a delta-neutral pair\<close>




datatype side = Buy | Sell

text \<open>An order task: on Lighter an aggressive limit order (side, size, reference price),
  on Aster a market order (side, size).\<close>

datatype order = LighterOrder side rat rat | AsterOrder side rat




text \<open>The fields of the returned dictionary that the supervisor reads later.\<close>

record open_metadata =
  md_size_base :: rat
  md_avg_mid :: rat


subsection \<open>Writing the state file\<close>

text \<open>
  \<^verbatim>\<open>StateManager.save\<close>. The file-system calls a program can make on the way are
  \<open>WriteFile\<close> (\<^verbatim>\<open>open(path, 'w')\<close>, \<^verbatim>\<open>json.dump\<close> and the close at the end of the
  \<^verbatim>\<open>with\<close> block), \<open>Fsync\<close> (\<^verbatim>\<open>os.fsync\<close>), \<open>Replace\<close> (\<^verbatim>\<open>os.replace\<close>); \<open>Sleep\<close> is
  \<^verbatim>\<open>time.sleep\<close>. What attempt \<open>k\<close> meets is \<open>outcome k\<close>: the write and the replace
  succeed, or one of them raises.
\<close>

datatype exn = OSError int | OtherException

datatype attempt_outcome = Written | WriteRaises exn | ReplaceRaises exn

datatype file_op = WriteFile string | Fsync string | Replace string string | Sleep rat

datatype handler = SleepAndContinue rat | EndOfBody | Break

text \<open>The two \<^verbatim>\<open>except\<close> clauses of the loop body.\<close>

definition save_except :: "exn \<Rightarrow> nat \<Rightarrow> nat \<Rightarrow> handler" where
  "save_except e attempt max_retries =
     (case e of
        OSError errno \<Rightarrow>
          if errno = 16 \<and> attempt < max_retries - 1
            then SleepAndContinue ((1 / 10) * of_nat (attempt + 1))
          else if attempt = max_retries - 1 then EndOfBody
          else Break
      | OtherException \<Rightarrow> Break)"

text \<open>The loop \<^verbatim>\<open>for attempt in range(max_retries)\<close> from \<open>attempt\<close> on: the calls made, and
  whether the file was replaced.\<close>

function save_from :: "(nat \<Rightarrow> attempt_outcome) \<Rightarrow> string \<Rightarrow> nat \<Rightarrow> nat \<Rightarrow> file_op list \<times> bool"
where
  "save_from outcome state_file max_retries attempt =
     (if attempt < max_retries then
        let temp_file = state_file @ ''.tmp'' in
        (case outcome attempt of
           Written \<Rightarrow> ([WriteFile temp_file, Replace temp_file state_file], True)
         | WriteRaises e \<Rightarrow>
             (case save_except e attempt max_retries of
                SleepAndContinue d \<Rightarrow>
                  let rest = save_from outcome state_file max_retries (Suc attempt)
                  in (WriteFile temp_file # Sleep d # fst rest, snd rest)
              | EndOfBody \<Rightarrow>
                  let rest = save_from outcome state_file max_retries (Suc attempt)
                  in (WriteFile temp_file # fst rest, snd rest)
              | Break \<Rightarrow> ([WriteFile temp_file], False))
         | ReplaceRaises e \<Rightarrow>
             (case save_except e attempt max_retries of
                SleepAndContinue d \<Rightarrow>
                  let rest = save_from outcome state_file max_retries (Suc attempt)
                  in (WriteFile temp_file # Replace temp_file state_file # Sleep d # fst rest,
                      snd rest)
              | EndOfBody \<Rightarrow>
                  let rest = save_from outcome state_file max_retries (Suc attempt)
                  in (WriteFile temp_file # Replace temp_file state_file # fst rest, snd rest)
              | Break \<Rightarrow> ([WriteFile temp_file, Replace temp_file state_file], False)))
      else ([], False))"
  by pat_completeness auto
termination
  by (relation "measure (\<lambda>(outcome, state_file, max_retries, attempt). max_retries - attempt)")
     auto

definition save_file :: "(nat \<Rightarrow> attempt_outcome) \<Rightarrow> string \<Rightarrow> file_op list \<times> bool" where
  "save_file outcome state_file = save_from outcome state_file 3 0"

text \<open>The delays slept in a list of calls, in order.\<close>

fun sleeps_of :: "file_op list \<Rightarrow> rat list" where
  "sleeps_of [] = []"
| "sleeps_of (Sleep d # ops) = d # sleeps_of ops"
| "sleeps_of (WriteFile p # ops) = sleeps_of ops"
| "sleeps_of (Fsync p # ops) = sleeps_of ops"
| "sleeps_of (Replace p q # ops) = sleeps_of ops"

text \<open>The calls one attempt makes before it ends, and the exception it raises, if any.\<close>

fun attempt_calls :: "string \<Rightarrow> attempt_outcome \<Rightarrow> file_op list" where
  "attempt_calls f Written = [WriteFile (f @ ''.tmp''), Replace (f @ ''.tmp'') f]"
| "attempt_calls f (WriteRaises e) = [WriteFile (f @ ''.tmp'')]"
| "attempt_calls f (ReplaceRaises e) = [WriteFile (f @ ''.tmp''), Replace (f @ ''.tmp'') f]"

fun raised :: "attempt_outcome \<Rightarrow> exn option" where
  "raised Written = None"
| "raised (WriteRaises e) = Some e"
| "raised (ReplaceRaises e) = Some e"

subsection \<open>The bot state and its manager\<close>

datatype bot_state = IDLE | ANALYZING | OPENING | HOLDING | CLOSING | WAITING | ERROR | SHUTDOWN

text \<open>
  The dictionary \<^verbatim>\<open>current_position\<close>. Times are hours on the UTC clock. A key that the
  code reads with \<^verbatim>\<open>.get\<close> and a default is optional; \<open>pos_size_base\<close> and \<open>pos_avg_mid\<close>
  are the two keys of \<^verbatim>\<open>metadata\<close> that are read back.
\<close>

record position =
  pos_symbol :: string
  pos_long_exchange :: string
  pos_short_exchange :: string
  pos_leverage :: "rat option"
  pos_opened_at :: rat
  pos_target_close_at :: rat
  pos_size_base :: "rat option"
  pos_avg_mid :: "rat option"
  pos_expected_net_apr :: "rat option"
  pos_last_table_refresh :: "rat option"

text \<open>An entry of \<^verbatim>\<open>completed_cycles\<close>.\<close>

record cycle =
  cyc_symbol :: string
  cyc_opened_at :: rat
  cyc_closed_at :: rat
  cyc_expected_net_apr :: rat
  cyc_status :: string
  pnl_at_close :: "rat option"
  pnl_pct_at_close :: "rat option"
  worst_exchange :: "string option"

text \<open>The part of \<^verbatim>\<open>StateManager.state\<close> that the supervisor changes.\<close>

record bot =
  state :: bot_state
  current_position :: "position option"
  completed_cycles :: "cycle list"
  total_cycles :: nat
  successful_cycles :: nat
  failed_cycles :: nat
  last_error :: "string option"

text \<open>
  The manager: the state in memory, and every state handed to \<^verbatim>\<open>save()\<close> so far, oldest
  first. The file on disk holds one of them at any time (a write that fails leaves the
  file of an earlier one).
\<close>

record state_mgr =
  mem :: bot
  written :: "bot list"

definition save :: "state_mgr \<Rightarrow> state_mgr" where
  "save mgr = mgr\<lparr> written := written mgr @ [mem mgr] \<rparr>"

definition set_state :: "bot_state \<Rightarrow> state_mgr \<Rightarrow> state_mgr" where
  "set_state new_state mgr = save (mgr\<lparr> mem := (mem mgr)\<lparr> state := new_state \<rparr> \<rparr>)"

definition get_state :: "state_mgr \<Rightarrow> bot_state" where
  "get_state mgr = state (mem mgr)"

definition set_current_position :: "position option \<Rightarrow> state_mgr \<Rightarrow> state_mgr" where
  "set_current_position p mgr = mgr\<lparr> mem := (mem mgr)\<lparr> current_position := p \<rparr> \<rparr>"

text \<open>The handler of a failed open or close: \<^verbatim>\<open>set_state(ERROR)\<close>, then \<^verbatim>\<open>last_error\<close>, then
  \<^verbatim>\<open>save()\<close>.\<close>

definition enter_error :: "string \<Rightarrow> state_mgr \<Rightarrow> state_mgr" where
  "enter_error msg mgr =
     (let mgr = set_state ERROR mgr
      in save (mgr\<lparr> mem := (mem mgr)\<lparr> last_error := Some msg \<rparr> \<rparr>))"

record config =
  leverage :: rat
  notional_per_position :: rat
  hold_duration_hours :: rat
  min_net_apr_threshold :: rat
  enable_stop_loss :: bool
  funding_table_refresh_minutes :: rat

subsection \<open>Position recovery\<close>

text \<open>
  \<^verbatim>\<open>verify_and_recover_position\<close>. \<open>observed\<close> is what the queries of the two venues
  gave: the signed sizes \<^verbatim>\<open>(aster_size, lighter_size)\<close>, or the exception one of them
  raised. The stored symbol is missing when it is the empty string.
\<close>

definition clear_position :: "state_mgr \<Rightarrow> bool \<times> state_mgr" where
  "clear_position mgr = (False, save (set_current_position None mgr))"

definition reconcile_size :: "position \<Rightarrow> rat \<Rightarrow> rat \<Rightarrow> position option" where
  "reconcile_size position aster_size lighter_size =
     (let saved_size_base = num (pos_size_base position);
          actual_aster_size = \<bar>aster_size\<bar>;
          actual_lighter_size = \<bar>lighter_size\<bar>;
          actual_size_base = (actual_aster_size + actual_lighter_size) / 2;
          size_diff = \<bar>actual_size_base - saved_size_base\<bar>;
          size_diff_pct = (if saved_size_base > 0 then size_diff / saved_size_base * 100 else 0)
      in if size_diff > 1 / 1000 \<and> size_diff_pct > 1 / 10
         then Some (position\<lparr> pos_size_base := Some actual_size_base \<rparr>)
         else None)"

definition verify_and_recover_position ::
  "string + (rat \<times> rat) \<Rightarrow> state_mgr \<Rightarrow> bool \<times> state_mgr"
where
  "verify_and_recover_position observed mgr =
     (case current_position (mem mgr) of
        None \<Rightarrow> (False, mgr)
      | Some position \<Rightarrow>
          if pos_symbol position = [] then clear_position mgr
          else
            (case observed of
               Inl e \<Rightarrow> clear_position mgr
             | Inr (aster_size, lighter_size) \<Rightarrow>
                 let has_aster_pos = \<bar>aster_size\<bar> > 1 / 10000;
                     has_lighter_pos = \<bar>lighter_size\<bar> > 1 / 10000
                 in
                   if has_aster_pos \<and> has_lighter_pos then
                     if (aster_size > 0 \<and> lighter_size < 0) \<or> (aster_size < 0 \<and> lighter_size > 0)
                     then
                       (case reconcile_size position aster_size lighter_size of
                          Some position' \<Rightarrow> (True, save (set_current_position (Some position') mgr))
                        | None \<Rightarrow> (True, mgr))
                     else clear_position mgr
                   else if has_aster_pos \<or> has_lighter_pos then clear_position mgr
                   else clear_position mgr))"

text \<open>The first block of \<^verbatim>\<open>main_loop\<close>: the recovery check on startup.\<close>

definition startup_recovery :: "string + (rat \<times> rat) \<Rightarrow> state_mgr \<Rightarrow> state_mgr" where
  "startup_recovery observed mgr =
     (if current_position (mem mgr) \<noteq> None then
        let (position_valid, mgr) = verify_and_recover_position observed mgr
        in if position_valid
           then (if get_state mgr \<noteq> HOLDING then set_state HOLDING mgr else mgr)
           else (if get_state mgr = HOLDING then set_state IDLE mgr else mgr)
      else mgr)"

subsection \<open>The supervisor loop\<close>

text \<open>
  What the awaited calls of one iteration of \<^verbatim>\<open>while True\<close> return: the clock when the
  iteration reads it first (\<open>now\<close>) and when it stamps a record later (\<open>clock\<close>), the
  gathered scan results, the outcome of \<^verbatim>\<open>open_delta_neutral_position\<close> (the text of its
  exception, or its dictionary), the exception of \<^verbatim>\<open>close_delta_neutral_position\<close> if it
  raises, the two PnLs of \<^verbatim>\<open>get_position_pnls\<close> (or the text of an exception), and whether
  the refresh of the funding table raises.
\<close>

record iteration =
  now :: rat
  clock :: rat
  scan :: "funding_result list"
  open_result :: "string + open_metadata"
  close_error :: "string option"
  pnls :: "string + (rat option \<times> rat option)"
  refresh_fails :: bool

text \<open>\<^verbatim>\<open>best['symbol']\<close>, \<^verbatim>\<open>best['long_exch']\<close> and \<^verbatim>\<open>best['short_exch']\<close>, read only on an
  available result.\<close>

fun symbol_of :: "funding_result \<Rightarrow> string" where
  "symbol_of (Opportunity r) = symbol r"
| "symbol_of (MissingData s missing sp am lm) = s"
| "symbol_of (SpreadExcluded s sp am lm ar lr) = s"
| "symbol_of (FetchError s e) = s"

fun long_exch_of :: "funding_result \<Rightarrow> string" where
  "long_exch_of (Opportunity r) = long_exch r"
| "long_exch_of _ = []"

fun short_exch_of :: "funding_result \<Rightarrow> string" where
  "short_exch_of (Opportunity r) = short_exch r"
| "short_exch_of _ = []"

text \<open>The branch of the states \<^verbatim>\<open>IDLE\<close> and \<^verbatim>\<open>WAITING\<close>: scan, choose, open.\<close>

definition analyze_and_open :: "config \<Rightarrow> iteration \<Rightarrow> state_mgr \<Rightarrow> state_mgr" where
  "analyze_and_open cfg it mgr =
     (let mgr = set_state ANALYZING mgr;
          results = scan it
      in if available_of results = [] then set_state WAITING mgr
         else
           (case candidates_of (min_net_apr_threshold cfg) results of
              [] \<Rightarrow> set_state WAITING mgr
            | best # _ \<Rightarrow>
                let mgr = set_state OPENING mgr
                in (case open_result it of
                      Inr metadata \<Rightarrow>
                        set_state HOLDING
                          (set_current_position (Some \<lparr>
                             pos_symbol = symbol_of best,
                             pos_long_exchange = long_exch_of best,
                             pos_short_exchange = short_exch_of best,
                             pos_leverage = Some (leverage cfg),
                             pos_opened_at = clock it,
                             pos_target_close_at = clock it + hold_duration_hours cfg,
                             pos_size_base = Some (md_size_base metadata),
                             pos_avg_mid = Some (md_avg_mid metadata),
                             pos_expected_net_apr = Some (net_apr_of best),
                             pos_last_table_refresh = None \<rparr>) mgr)
                    | Inl e \<Rightarrow> enter_error e mgr)))"

text \<open>The close at the end of the hold: the cycle is recorded once the close has returned.\<close>

definition timer_close :: "iteration \<Rightarrow> position \<Rightarrow> state_mgr \<Rightarrow> state_mgr" where
  "timer_close it position mgr =
     (let mgr = set_state CLOSING mgr
      in (case close_error it of
            None \<Rightarrow>
              let mgr = mgr\<lparr> mem := (mem mgr)\<lparr>
                      completed_cycles := completed_cycles (mem mgr) @ [\<lparr>
                        cyc_symbol = pos_symbol position,
                        cyc_opened_at = pos_opened_at position,
                        cyc_closed_at = clock it,
                        cyc_expected_net_apr = num (pos_expected_net_apr position),
                        cyc_status = ''success'',
                        pnl_at_close = None,
                        pnl_pct_at_close = None,
                        worst_exchange = None \<rparr>],
                      total_cycles := total_cycles (mem mgr) + 1,
                      successful_cycles := successful_cycles (mem mgr) + 1,
                      current_position := None \<rparr> \<rparr>;
                  mgr = set_state WAITING mgr
              in set_state IDLE mgr
          | Some e \<Rightarrow> enter_error e mgr))"

text \<open>The stop-loss test of a holding iteration: the position value, the worst leg, the
  percentage, the threshold. It returns \<^verbatim>\<open>(worst_pnl, pnl_pct, worst_exchange)\<close> when the
  stop-loss is triggered.\<close>

definition position_value :: "config \<Rightarrow> position \<Rightarrow> rat" where
  "position_value cfg position =
     (if truthy (pos_size_base position) \<and> truthy (pos_avg_mid position)
      then num (pos_size_base position) * num (pos_avg_mid position)
      else notional_per_position cfg)"

definition worst_leg :: "rat option \<Rightarrow> rat option \<Rightarrow> (rat \<times> string) option" where
  "worst_leg aster_pnl lighter_pnl =
     (case (aster_pnl, lighter_pnl) of
        (Some a, Some l) \<Rightarrow> if a \<le> l then Some (a, ''Aster'') else Some (l, ''Lighter'')
      | (Some a, None) \<Rightarrow> Some (a, ''Aster'')
      | (None, Some l) \<Rightarrow> Some (l, ''Lighter'')
      | (None, None) \<Rightarrow> None)"

definition stop_loss_check ::
  "config \<Rightarrow> position \<Rightarrow> rat option \<Rightarrow> rat option \<Rightarrow> (rat \<times> rat \<times> string) option"
where
  "stop_loss_check cfg position aster_pnl lighter_pnl =
     (let lev = (case pos_leverage position of Some l \<Rightarrow> l | None \<Rightarrow> leverage cfg);
          stop_loss_pct = calculate_stop_loss_percentage lev;
          pos_value = position_value cfg position
      in (case worst_leg aster_pnl lighter_pnl of
            None \<Rightarrow> None
          | Some (worst_pnl, worst_exch) \<Rightarrow>
              if pos_value > 0 then
                let pnl_pct = worst_pnl / pos_value * 100
                in if enable_stop_loss cfg \<and> \<bar>pnl_pct\<bar> \<ge> stop_loss_pct
                   then Some (worst_pnl, pnl_pct, worst_exch)
                   else None
              else None))"

definition stop_loss_close ::
  "iteration \<Rightarrow> position \<Rightarrow> rat \<Rightarrow> rat \<Rightarrow> string \<Rightarrow> state_mgr \<Rightarrow> state_mgr"
where
  "stop_loss_close it position worst_pnl pnl_pct worst_exch mgr =
     (let mgr = set_state CLOSING mgr
      in (case close_error it of
            None \<Rightarrow>
              let mgr = mgr\<lparr> mem := (mem mgr)\<lparr>
                      completed_cycles := completed_cycles (mem mgr) @ [\<lparr>
                        cyc_symbol = pos_symbol position,
                        cyc_opened_at = pos_opened_at position,
                        cyc_closed_at = clock it,
                        cyc_expected_net_apr = num (pos_expected_net_apr position),
                        cyc_status = ''stop-loss'',
                        pnl_at_close = Some worst_pnl,
                        pnl_pct_at_close = Some pnl_pct,
                        worst_exchange = Some worst_exch \<rparr>],
                      total_cycles := total_cycles (mem mgr) + 1,
                      failed_cycles := failed_cycles (mem mgr) + 1,
                      current_position := None \<rparr> \<rparr>;
                  mgr = save mgr
              in set_state IDLE mgr
          | Some e \<Rightarrow> enter_error (''Stop-loss execution failed: '' @ e) mgr))"

definition refresh_table :: "config \<Rightarrow> iteration \<Rightarrow> position \<Rightarrow> state_mgr \<Rightarrow> state_mgr" where
  "refresh_table cfg it position mgr =
     (let should_refresh =
            (case pos_last_table_refresh position of
               None \<Rightarrow> True
             | Some last_refresh_time \<Rightarrow>
                 (now it - last_refresh_time) * 60 \<ge> funding_table_refresh_minutes cfg)
      in if should_refresh \<and> \<not> refresh_fails it
         then save (set_current_position
                      (Some (position\<lparr> pos_last_table_refresh := Some (clock it) \<rparr>)) mgr)
         else mgr)"

text \<open>The branch of the state \<^verbatim>\<open>HOLDING\<close>.\<close>

definition holding :: "config \<Rightarrow> iteration \<Rightarrow> state_mgr \<Rightarrow> state_mgr" where
  "holding cfg it mgr =
     (case current_position (mem mgr) of
        None \<Rightarrow> set_state IDLE mgr
      | Some position \<Rightarrow>
          if now it \<ge> pos_target_close_at position then timer_close it position mgr
          else
            (case (case pnls it of
                     Inl e \<Rightarrow> None
                   | Inr (aster_pnl, lighter_pnl) \<Rightarrow>
                       stop_loss_check cfg position aster_pnl lighter_pnl) of
               Some (worst_pnl, pnl_pct, worst_exch) \<Rightarrow>
                 stop_loss_close it position worst_pnl pnl_pct worst_exch mgr
             | None \<Rightarrow> refresh_table cfg it position mgr))"

text \<open>One iteration of \<^verbatim>\<open>while True\<close>, and a run of the loop over the iterations given.\<close>

definition main_loop_iteration :: "config \<Rightarrow> iteration \<Rightarrow> state_mgr \<Rightarrow> state_mgr" where
  "main_loop_iteration cfg it mgr =
     (let current_state = get_state mgr
      in if current_state = IDLE \<or> current_state = WAITING then analyze_and_open cfg it mgr
         else if current_state = HOLDING then holding cfg it mgr
         else if current_state = ERROR then set_state IDLE mgr
         else set_state IDLE mgr)"

fun main_loop :: "config \<Rightarrow> iteration list \<Rightarrow> state_mgr \<Rightarrow> state_mgr" where
  "main_loop cfg [] mgr = mgr"
| "main_loop cfg (it # its) mgr = main_loop cfg its (main_loop_iteration cfg it mgr)"

subsection \<open>A configuration and a stored position\<close>

text \<open>The defaults of \<^verbatim>\<open>BotConfig\<close>.\<close>

definition default_config :: config where
  "default_config = \<lparr>
     leverage = 3,
     notional_per_position = 100,
     hold_duration_hours = 8,
     min_net_apr_threshold = 5,
     enable_stop_loss = True,
     funding_table_refresh_minutes = 5 \<rparr>"

text \<open>A state file as the bot writes it while it holds a pair: 0.02 BTC at an average mid of
  50000 (a position value of 1000), long on Lighter and short on Aster at leverage 3,
  opened at hour 0 and due to close at hour 8.\<close>

definition btc_position :: position where
  "btc_position = \<lparr>
     pos_symbol = ''BTCUSDT'',
     pos_long_exchange = ''Lighter'',
     pos_short_exchange = ''Aster'',
     pos_leverage = Some 3,
     pos_opened_at = 0,
     pos_target_close_at = 8,
     pos_size_base = Some (1 / 50),
     pos_avg_mid = Some 50000,
     pos_expected_net_apr = Some 30,
     pos_last_table_refresh = None \<rparr>"

definition holding_btc :: state_mgr where
  "holding_btc = \<lparr>
     mem = \<lparr>
       state = HOLDING,
       current_position = Some btc_position,
       completed_cycles = [],
       total_cycles = 0,
       successful_cycles = 0,
       failed_cycles = 0,
       last_error = None \<rparr>,
     written = [] \<rparr>"

text \<open>An iteration at hour 1 of that hold: the Aster leg stands at -260 (26 per cent of the
  position value), the Lighter leg at +250, and the close succeeds.\<close>

definition losing_iteration :: iteration where
  "losing_iteration = \<lparr>
     now = 1,
     clock = 1,
     scan = [],
     open_result = Inl [],
     close_error = None,
     pnls = Inr (Some (- 260), Some 250),
     refresh_fails = False \<rparr>"

section \<open>Verification\<close>

subsection \<open>Substring search\<close>

lemma starts_with_iff: "starts_with p s \<longleftrightarrow> (\<exists>suf. s = p @ suf)"
  by (induction p s rule: starts_with.induct) auto

lemma str_contains_iff: "str_contains sub s \<longleftrightarrow> (\<exists>pre suf. s = pre @ sub @ suf)"
proof (induction s)
  case Nil
  then show ?case by auto
next
  case (Cons c cs)
  have "(\<exists>pre suf. c # cs = pre @ sub @ suf) \<longleftrightarrow>
        (\<exists>suf. c # cs = sub @ suf) \<or> (\<exists>pre suf. cs = pre @ sub @ suf)"
  proof
    assume "\<exists>pre suf. c # cs = pre @ sub @ suf"
    then obtain pre suf where e: "c # cs = pre @ sub @ suf" by blast
    show "(\<exists>suf. c # cs = sub @ suf) \<or> (\<exists>pre suf. cs = pre @ sub @ suf)"
    proof (cases pre)
      case Nil
      with e show ?thesis by auto
    next
      case (Cons a pre')
      with e have "cs = pre' @ sub @ suf" by simp
      then show ?thesis by blast
    qed
  next
    assume "(\<exists>suf. c # cs = sub @ suf) \<or> (\<exists>pre suf. cs = pre @ sub @ suf)"
    then show "\<exists>pre suf. c # cs = pre @ sub @ suf"
    proof
      assume "\<exists>suf. c # cs = sub @ suf"
      then obtain suf where "c # cs = [] @ sub @ suf" by auto
      then show ?thesis by blast
    next
      assume "\<exists>pre suf. cs = pre @ sub @ suf"
      then obtain pre suf where "cs = pre @ sub @ suf" by blast
      then have "c # cs = (c # pre) @ sub @ suf" by simp
      then show ?thesis by blast
    qed
  qed
  with Cons show ?case by (simp add: starts_with_iff)
qed

subsection \<open>The rate-limit classifier\<close>

text \<open>
  Claim C8, amended: the classifier returns true exactly when the lowercased
  text of the exception contains one of the five substrings \<^verbatim>\<open>429\<close>,
  \<^verbatim>\<open>too many requests\<close>, \<^verbatim>\<open>23000\<close>, \<^verbatim>\<open>rate limit\<close>, \<^verbatim>\<open>ratelimit\<close>.
\<close>

theorem rate_limit_substrings:
  "is_rate_limit_error exc \<longleftrightarrow>
     (\<exists>pre suf. lower exc = pre @ ''429'' @ suf) \<or>
     (\<exists>pre suf. lower exc = pre @ ''too many requests'' @ suf) \<or>
     (\<exists>pre suf. lower exc = pre @ ''23000'' @ suf) \<or>
     (\<exists>pre suf. lower exc = pre @ ''rate limit'' @ suf) \<or>
     (\<exists>pre suf. lower exc = pre @ ''ratelimit'' @ suf)"
  unfolding is_rate_limit_error_def Let_def str_contains_iff ..

text \<open>
  With four substrings only, claim C8 fails: a text that carries the code \<^verbatim>\<open>23000\<close> and
  none of \<^verbatim>\<open>429\<close>, \<^verbatim>\<open>too many requests\<close>, \<^verbatim>\<open>rate limit\<close>, \<^verbatim>\<open>ratelimit\<close> is classified
  as a rate-limit error.
\<close>

theorem rate_limit_23000:
  "is_rate_limit_error ''Lighter error code=23000'' \<and>
   \<not> str_contains ''429'' (lower ''Lighter error code=23000'') \<and>
   \<not> str_contains ''too many requests'' (lower ''Lighter error code=23000'') \<and>
   \<not> str_contains ''rate limit'' (lower ''Lighter error code=23000'') \<and>
   \<not> str_contains ''ratelimit'' (lower ''Lighter error code=23000'')"
  by (simp add: is_rate_limit_error_def lower_def lower_char_def)

subsection \<open>The average mid\<close>

text \<open>
  Claim C10: \<^verbatim>\<open>get_avg_mid\<close> returns the mean of the mids of the venues that have both
  sides (both venues, Lighter alone, Aster alone); with no such venue, the mean of the
  cross pair Lighter bid and Aster ask, or Aster bid and Lighter ask; it raises when a
  single price is present; and a price of zero counts as absent everywhere (the result
  is the same with every zero replaced by \<^verbatim>\<open>None\<close>, a price being present when it is
  neither \<^verbatim>\<open>None\<close> nor zero).
\<close>

theorem get_avg_mid_cases:
  "(truthy lb \<and> truthy la \<and> truthy ab \<and> truthy aa \<longrightarrow>
      get_avg_mid lb la ab aa = Inr (((num lb + num la) / 2 + (num ab + num aa) / 2) / 2)) \<and>
   (truthy lb \<and> truthy la \<and> \<not> (truthy ab \<and> truthy aa) \<longrightarrow>
      get_avg_mid lb la ab aa = Inr ((num lb + num la) / 2)) \<and>
   (\<not> (truthy lb \<and> truthy la) \<and> truthy ab \<and> truthy aa \<longrightarrow>
      get_avg_mid lb la ab aa = Inr ((num ab + num aa) / 2)) \<and>
   (\<not> (truthy lb \<and> truthy la) \<and> \<not> (truthy ab \<and> truthy aa) \<and> truthy lb \<and> truthy aa \<longrightarrow>
      get_avg_mid lb la ab aa = Inr ((num lb + num aa) / 2)) \<and>
   (\<not> (truthy lb \<and> truthy la) \<and> \<not> (truthy ab \<and> truthy aa) \<and> truthy ab \<and> truthy la \<longrightarrow>
      get_avg_mid lb la ab aa = Inr ((num ab + num la) / 2)) \<and>
   ((truthy lb \<and> \<not> truthy la \<and> \<not> truthy ab \<and> \<not> truthy aa) \<or>
    (\<not> truthy lb \<and> truthy la \<and> \<not> truthy ab \<and> \<not> truthy aa) \<or>
    (\<not> truthy lb \<and> \<not> truthy la \<and> truthy ab \<and> \<not> truthy aa) \<or>
    (\<not> truthy lb \<and> \<not> truthy la \<and> \<not> truthy ab \<and> truthy aa) \<longrightarrow>
      get_avg_mid lb la ab aa = Inl NoUsablePrices) \<and>
   get_avg_mid lb la ab aa =
     get_avg_mid (if lb = Some 0 then None else lb) (if la = Some 0 then None else la)
                 (if ab = Some 0 then None else ab) (if aa = Some 0 then None else aa) \<and>
   (truthy lb \<longleftrightarrow> lb \<noteq> None \<and> lb \<noteq> Some 0)"
proof -
  have t: "\<And>p. truthy (if p = Some 0 then None else p) = truthy p"
    by (auto simp: truthy_def split: option.splits)
  have n: "\<And>p. num (if p = Some 0 then None else p) = num p"
    by (auto simp: num_def split: option.splits)
  have z: "get_avg_mid lb la ab aa =
     get_avg_mid (if lb = Some 0 then None else lb) (if la = Some 0 then None else la)
                 (if ab = Some 0 then None else ab) (if aa = Some 0 then None else aa)"
    unfolding get_avg_mid_def t n ..
  have c: "truthy lb \<longleftrightarrow> lb \<noteq> None \<and> lb \<noteq> Some 0"
    by (auto simp: truthy_def split: option.splits)
  have m: "(truthy lb \<and> truthy la \<and> truthy ab \<and> truthy aa \<longrightarrow>
      get_avg_mid lb la ab aa = Inr (((num lb + num la) / 2 + (num ab + num aa) / 2) / 2)) \<and>
   (truthy lb \<and> truthy la \<and> \<not> (truthy ab \<and> truthy aa) \<longrightarrow>
      get_avg_mid lb la ab aa = Inr ((num lb + num la) / 2)) \<and>
   (\<not> (truthy lb \<and> truthy la) \<and> truthy ab \<and> truthy aa \<longrightarrow>
      get_avg_mid lb la ab aa = Inr ((num ab + num aa) / 2)) \<and>
   (\<not> (truthy lb \<and> truthy la) \<and> \<not> (truthy ab \<and> truthy aa) \<and> truthy lb \<and> truthy aa \<longrightarrow>
      get_avg_mid lb la ab aa = Inr ((num lb + num aa) / 2)) \<and>
   (\<not> (truthy lb \<and> truthy la) \<and> \<not> (truthy ab \<and> truthy aa) \<and> truthy ab \<and> truthy la \<longrightarrow>
      get_avg_mid lb la ab aa = Inr ((num ab + num la) / 2)) \<and>
   ((truthy lb \<and> \<not> truthy la \<and> \<not> truthy ab \<and> \<not> truthy aa) \<or>
    (\<not> truthy lb \<and> truthy la \<and> \<not> truthy ab \<and> \<not> truthy aa) \<or>
    (\<not> truthy lb \<and> \<not> truthy la \<and> truthy ab \<and> \<not> truthy aa) \<or>
    (\<not> truthy lb \<and> \<not> truthy la \<and> \<not> truthy ab \<and> truthy aa) \<longrightarrow>
      get_avg_mid lb la ab aa = Inl NoUsablePrices)"
    by (auto simp: get_avg_mid_def)
  from m z c show ?thesis by blast
qed

text \<open>The cases of \<open>get_avg_mid_cases\<close> at concrete quotes: both venues, Lighter alone,
  a cross pair with a zero ask, a single ask, and a single ask beside two zeros.\<close>

theorem get_avg_mid_witness:
  "get_avg_mid (Some 10) (Some 12) (Some 11) (Some 13) = Inr (23 / 2) \<and>
   get_avg_mid (Some 10) (Some 12) (Some 11) None = Inr 11 \<and>
   get_avg_mid (Some 10) (Some 0) None (Some 12) = Inr 11 \<and>
   get_avg_mid None (Some 5) None None = Inl NoUsablePrices \<and>
   get_avg_mid None (Some 5) (Some 0) (Some 0) = Inl NoUsablePrices"
  using get_avg_mid_cases [of "Some 10" "Some 12" "Some 11" "Some 13"]
        get_avg_mid_cases [of "Some 10" "Some 12" "Some 11" None]
        get_avg_mid_cases [of "Some 10" "Some 0" None "Some 12"]
        get_avg_mid_cases [of None "Some 5" None None]
        get_avg_mid_cases [of None "Some 5" "Some 0" "Some 0"]
  by (simp add: truthy_def num_def)

subsection \<open>The opportunity of a scanned symbol\<close>

text \<open>
  Claim C1: when both funding rates and both mids of a symbol were retrieved and the
  spread is within \<open>max_spread_pct\<close>, the symbol's result is an opportunity with
  \<open>aster_apr = aster_rate * 6 * 365 * 100\<close>, \<open>lighter_apr = lighter_rate * 3 * 365 * 100\<close>
  and \<open>net_apr = |aster_apr - lighter_apr|\<close>; it is long Aster and short Lighter with
  \<open>net_apr = lighter_apr - aster_apr\<close> when that difference is at least the opposite one,
  and long Lighter and short Aster with \<open>net_apr = aster_apr - lighter_apr\<close> when that one
  is greater. (The spread is computed when the two mids do not sum to zero.)
\<close>

theorem net_apr_best_direction:
  assumes "a + l \<noteq> 0"
      and "\<bar>a - l\<bar> / ((a + l) / 2) * 100 \<le> max_spread_pct"
  shows "\<exists>r. fetch_symbol_funding s (Some aster_r) (Some lighter_r) (Some a) (Some l) max_spread_pct
               = Inr (Opportunity r) \<and>
             symbol r = s \<and>
             aster_apr r = aster_r * 6 * 365 * 100 \<and>
             lighter_apr r = lighter_r * 3 * 365 * 100 \<and>
             net_apr r = \<bar>aster_apr r - lighter_apr r\<bar> \<and>
             ((long_exch r = ''Aster'' \<and> short_exch r = ''Lighter'' \<and>
               net_apr r = lighter_apr r - aster_apr r \<and>
               lighter_apr r - aster_apr r \<ge> aster_apr r - lighter_apr r) \<or>
              (long_exch r = ''Lighter'' \<and> short_exch r = ''Aster'' \<and>
               net_apr r = aster_apr r - lighter_apr r \<and>
               aster_apr r - lighter_apr r > lighter_apr r - aster_apr r))"
  using assms
  by (auto simp: fetch_symbol_funding_def fetch_symbol_spread_def calculate_apr_def Let_def)

text \<open>At an Aster rate of 0.1 % and a Lighter rate of 0.01 % per period, with mids 50000
  and 50010: the APRs are 219 and 10.95, the pair is long Lighter and short Aster.\<close>

theorem net_apr_witness:
  "\<exists>r. fetch_symbol_funding ''BTCUSDT'' (Some (1 / 1000)) (Some (1 / 10000)) (Some 50000)
          (Some 50010) (15 / 100) = Inr (Opportunity r) \<and>
       net_apr r = 4161 / 20 \<and> long_exch r = ''Lighter'' \<and> short_exch r = ''Aster''"
proof -
  have h1: "(50000 :: rat) + 50010 \<noteq> 0" by simp
  have h2: "\<bar>(50000 :: rat) - 50010\<bar> / ((50000 + 50010) / 2) * 100 \<le> 15 / 100" by simp
  from net_apr_best_direction [OF h1 h2, of "''BTCUSDT''" "1 / 1000" "1 / 10000"]
  obtain r where r: "fetch_symbol_funding ''BTCUSDT'' (Some (1 / 1000)) (Some (1 / 10000))
       (Some 50000) (Some 50010) (15 / 100) = Inr (Opportunity r)"
     "aster_apr r = (1 / 1000) * 6 * 365 * 100"
     "lighter_apr r = (1 / 10000) * 3 * 365 * 100"
     "net_apr r = \<bar>aster_apr r - lighter_apr r\<bar>"
     "(long_exch r = ''Aster'' \<and> short_exch r = ''Lighter'' \<and>
               net_apr r = lighter_apr r - aster_apr r \<and>
               lighter_apr r - aster_apr r \<ge> aster_apr r - lighter_apr r) \<or>
              (long_exch r = ''Lighter'' \<and> short_exch r = ''Aster'' \<and>
               net_apr r = aster_apr r - lighter_apr r \<and>
               aster_apr r - lighter_apr r > lighter_apr r - aster_apr r)"
    by blast
  from r(2,3,4) have n: "net_apr r = 4161 / 20" by simp
  from r(2,3,5) have d: "long_exch r = ''Lighter'' \<and> short_exch r = ''Aster''" by simp
  from r(1) n d show ?thesis by blast
qed

subsection \<open>Missing data in a scan\<close>

text \<open>
  Claim C9 fails on the code for a missing mid: with both funding rates retrieved and the
  Aster mid missing, the spread is \<^verbatim>\<open>None\<close>, the spread test is skipped, and the symbol's
  result is available and stands in the available list.
\<close>

theorem missing_mid_available:
  "available (fetch_with_timeout ''USDT'' (15 / 100)
      \<lparr> f_symbol = ''BTC'', f_aster_rate = Some (1 / 1000), f_lighter_rate = Some (1 / 10000),
        f_aster_mid = None, f_lighter_mid = Some 50010, f_timed_out = False \<rparr>) \<and>
   fetch_with_timeout ''USDT'' (15 / 100)
      \<lparr> f_symbol = ''BTC'', f_aster_rate = Some (1 / 1000), f_lighter_rate = Some (1 / 10000),
        f_aster_mid = None, f_lighter_mid = Some 50010, f_timed_out = False \<rparr>
     \<in> set (available_of (gather_results ''USDT'' (15 / 100)
      [\<lparr> f_symbol = ''BTC'', f_aster_rate = Some (1 / 1000), f_lighter_rate = Some (1 / 10000),
         f_aster_mid = None, f_lighter_mid = Some 50010, f_timed_out = False \<rparr>]))"
  by (simp add: fetch_with_timeout_def fetch_symbol_funding_def fetch_symbol_spread_def
        gather_results_def available_of_def calculate_apr_def Let_def)

text \<open>
  Claim C9, amended: if either venue's funding rate is missing, the symbol's result is
  unavailable and is never in the available list of a scan; when the fetch neither timed
  out nor raised, it is the missing-data result, whose \<^verbatim>\<open>missing_on\<close> lists exactly the
  venues without a rate. If both rates were retrieved and a mid is missing, the result
  is an opportunity with no spread, and it is in the available list.
\<close>

theorem scan_missing_data:
  "(f_aster_rate f = None \<or> f_lighter_rate f = None \<longrightarrow>
      \<not> available (fetch_with_timeout quote max_spread_pct f) \<and>
      fetch_with_timeout quote max_spread_pct f
        \<notin> set (available_of (gather_results quote max_spread_pct fs)) \<and>
      (\<not> f_timed_out f \<and>
       (f_aster_mid f = None \<or> f_lighter_mid f = None \<or>
        num (f_aster_mid f) + num (f_lighter_mid f) \<noteq> 0) \<longrightarrow>
         (\<exists>missing sp am lm.
            fetch_with_timeout quote max_spread_pct f =
              MissingData (f_symbol f @ quote) missing sp am lm \<and>
            missing \<noteq> [] \<and>
            (''Aster'' \<in> set missing \<longleftrightarrow> f_aster_rate f = None) \<and>
            (''Lighter'' \<in> set missing \<longleftrightarrow> f_lighter_rate f = None)))) \<and>
   (f_aster_rate f \<noteq> None \<and> f_lighter_rate f \<noteq> None \<and> \<not> f_timed_out f \<and>
    (f_aster_mid f = None \<or> f_lighter_mid f = None) \<longrightarrow>
      (\<exists>r. fetch_with_timeout quote max_spread_pct f = Opportunity r \<and> spread_pct r = None) \<and>
      (f \<in> set fs \<longrightarrow>
         fetch_with_timeout quote max_spread_pct f
           \<in> set (available_of (gather_results quote max_spread_pct fs))))"
proof -
  have u: "f_aster_rate f = None \<or> f_lighter_rate f = None \<Longrightarrow>
      \<not> available (fetch_with_timeout quote max_spread_pct f)"
    by (auto simp: fetch_with_timeout_def fetch_symbol_funding_def fetch_symbol_spread_def
          Let_def split: option.splits sum.splits prod.splits)
  then have n: "f_aster_rate f = None \<or> f_lighter_rate f = None \<Longrightarrow>
      fetch_with_timeout quote max_spread_pct f
        \<notin> set (available_of (gather_results quote max_spread_pct fs))"
    by (auto simp: available_of_def)
  have m: "f_aster_rate f = None \<or> f_lighter_rate f = None \<Longrightarrow>
      \<not> f_timed_out f \<and>
       (f_aster_mid f = None \<or> f_lighter_mid f = None \<or>
        num (f_aster_mid f) + num (f_lighter_mid f) \<noteq> 0) \<longrightarrow>
         (\<exists>missing sp am lm.
            fetch_with_timeout quote max_spread_pct f =
              MissingData (f_symbol f @ quote) missing sp am lm \<and>
            missing \<noteq> [] \<and>
            (''Aster'' \<in> set missing \<longleftrightarrow> f_aster_rate f = None) \<and>
            (''Lighter'' \<in> set missing \<longleftrightarrow> f_lighter_rate f = None))"
    by (auto simp: fetch_with_timeout_def fetch_symbol_funding_def fetch_symbol_spread_def
          Let_def num_def split: option.splits)
  have o: "f_aster_rate f \<noteq> None \<and> f_lighter_rate f \<noteq> None \<and> \<not> f_timed_out f \<and>
    (f_aster_mid f = None \<or> f_lighter_mid f = None) \<Longrightarrow>
      \<exists>r. fetch_with_timeout quote max_spread_pct f = Opportunity r \<and> spread_pct r = None"
    by (auto simp: fetch_with_timeout_def fetch_symbol_funding_def fetch_symbol_spread_def
          Let_def split: option.splits)
  have i: "f_aster_rate f \<noteq> None \<and> f_lighter_rate f \<noteq> None \<and> \<not> f_timed_out f \<and>
    (f_aster_mid f = None \<or> f_lighter_mid f = None) \<Longrightarrow> f \<in> set fs \<Longrightarrow>
         fetch_with_timeout quote max_spread_pct f
           \<in> set (available_of (gather_results quote max_spread_pct fs))"
    using o by (auto simp: available_of_def gather_results_def)
  from u n m o i show ?thesis by blast
qed

text \<open>With the Lighter rate missing the result is the missing-data result that names
  Lighter, and the available list of the scan of that symbol is empty.\<close>

theorem scan_missing_data_witness:
  "fetch_with_timeout ''USDT'' (15 / 100)
      \<lparr> f_symbol = ''BTC'', f_aster_rate = Some (1 / 1000), f_lighter_rate = None,
        f_aster_mid = Some 50000, f_lighter_mid = Some 50010, f_timed_out = False \<rparr>
     \<notin> set (available_of (gather_results ''USDT'' (15 / 100)
      [\<lparr> f_symbol = ''BTC'', f_aster_rate = Some (1 / 1000), f_lighter_rate = None,
         f_aster_mid = Some 50000, f_lighter_mid = Some 50010, f_timed_out = False \<rparr>])) \<and>
   (\<exists>missing sp am lm.
      fetch_with_timeout ''USDT'' (15 / 100)
        \<lparr> f_symbol = ''BTC'', f_aster_rate = Some (1 / 1000), f_lighter_rate = None,
          f_aster_mid = Some 50000, f_lighter_mid = Some 50010, f_timed_out = False \<rparr>
        = MissingData ''BTCUSDT'' missing sp am lm \<and>
      ''Lighter'' \<in> set missing \<and> ''Aster'' \<notin> set missing)"
  using scan_missing_data [of
      "\<lparr> f_symbol = ''BTC'', f_aster_rate = Some (1 / 1000), f_lighter_rate = None,
         f_aster_mid = Some 50000, f_lighter_mid = Some 50010, f_timed_out = False \<rparr>"
      "''USDT''" "15 / 100"
      "[\<lparr> f_symbol = ''BTC'', f_aster_rate = Some (1 / 1000), f_lighter_rate = None,
         f_aster_mid = Some 50000, f_lighter_mid = Some 50010, f_timed_out = False \<rparr>]"]
  by (simp add: num_def, blast)

subsection \<open>The size of an open\<close>









subsection \<open>Retry with backoff\<close>

declare retry_with_backoff_from.simps [simp del]

lemma uniform_quarter:
  assumes "0 \<le> u" "u \<le> 1"
  shows "\<bar>(d + uniform (- (d * (1 / 4))) (d * (1 / 4)) u) - d\<bar> \<le> (1 / 4) * \<bar>d\<bar>"
proof -
  have e: "(d + uniform (- (d * (1 / 4))) (d * (1 / 4)) u) - d = (d * (1 / 4)) * (2 * u - 1)"
    by (simp add: uniform_def algebra_simps)
  have "\<bar>2 * u - 1\<bar> \<le> 1" using assms by (simp add: abs_le_iff)
  then have "\<bar>d * (1 / 4)\<bar> * \<bar>2 * u - 1\<bar> \<le> \<bar>d * (1 / 4)\<bar> * 1"
    by (intro mult_left_mono) simp_all
  then show ?thesis unfolding e abs_mult by simp
qed

lemma retry_last_irrelevant:
  "int attempt < max_retries + 1 \<Longrightarrow>
   retry_with_backoff_from func rnd max_retries i b m j lst attempt =
   retry_with_backoff_from func rnd max_retries i b m j None attempt"
  by (subst retry_with_backoff_from.simps, subst (2) retry_with_backoff_from.simps) simp

lemma retry_step:
  assumes "int attempt < max_retries" "func attempt = Raises e" "is_rate_limit_error e"
  shows "retry_with_backoff_from func rnd max_retries i b m j lst attempt =
     ((if j then min (i * b ^ attempt) m +
                 uniform (- (min (i * b ^ attempt) m * (1 / 4))) (min (i * b ^ attempt) m * (1 / 4))
                   (rnd attempt)
       else min (i * b ^ attempt) m)
      # fst (retry_with_backoff_from func rnd max_retries i b m j None (Suc attempt)),
      snd (retry_with_backoff_from func rnd max_retries i b m j None (Suc attempt)))"
proof -
  have n: "int (Suc attempt) < max_retries + 1" using assms(1) by simp
  show ?thesis
    using assms
    by (subst retry_with_backoff_from.simps)
       (simp add: Let_def retry_last_irrelevant [OF n, of _ _ _ _ _ _ "Some e"])
qed

lemma retry_sleeps_bound:
  "\<forall>k. 0 \<le> rnd k \<and> rnd k \<le> 1 \<Longrightarrow>
     n < length (fst (retry_with_backoff_from func rnd max_retries i b m j lst attempt)) \<Longrightarrow>
     \<bar>fst (retry_with_backoff_from func rnd max_retries i b m j lst attempt) ! n
        - min (i * b ^ (attempt + n)) m\<bar> \<le> (1 / 4) * \<bar>min (i * b ^ (attempt + n)) m\<bar> \<and>
     (\<not> j \<longrightarrow> fst (retry_with_backoff_from func rnd max_retries i b m j lst attempt) ! n
        = min (i * b ^ (attempt + n)) m)"
proof (induction func rnd max_retries i b m j lst attempt arbitrary: n
       rule: retry_with_backoff_from.induct)
  case (1 func rnd max_retries i b m j lst attempt)
  let ?R = "retry_with_backoff_from func rnd max_retries i b m j"
  show ?case
  proof (cases "int attempt < max_retries \<and> (\<exists>e. func attempt = Raises e \<and> is_rate_limit_error e)")
    case False
    then have "fst (?R lst attempt) = []"
      by (subst retry_with_backoff_from.simps) (auto split: outcome.splits option.splits)
    with "1.prems" show ?thesis by simp
  next
    case True
    then obtain e where e: "int attempt < max_retries" "func attempt = Raises e" "is_rate_limit_error e"
      by blast
    note st = retry_step [where func = func and attempt = attempt and e = e and rnd = rnd
        and i = i and b = b and m = m and j = j and lst = lst and max_retries = max_retries, OF e]
    have n1: "int attempt < max_retries + 1" using e(1) by simp
    have n2: "\<not> max_retries \<le> int attempt" using e(1) by simp
    have sl: "int (Suc attempt) < max_retries + 1" using e(1) by simp
    show ?thesis
    proof (cases n)
      case 0
      have r: "0 \<le> rnd attempt" "rnd attempt \<le> 1" using "1.prems"(1) by auto
      show ?thesis
        unfolding st 0 using uniform_quarter [OF r] by simp
    next
      case (Suc n')
      from "1.prems"(2) have l: "n' < length (fst (?R None (Suc attempt)))"
        unfolding st Suc by simp
      then have l': "n' < length (fst (?R (Some e) (Suc attempt)))"
        using retry_last_irrelevant [OF sl, of func rnd i b m j "Some e"] by simp
      have nn: "\<not> \<not> is_rate_limit_error e" using e(3) by simp
      have eq: "?R (Some e) (Suc attempt) = ?R None (Suc attempt)"
        using retry_last_irrelevant [OF sl] .
      have ih: "\<bar>fst (?R None (Suc attempt)) ! n' - min (i * b ^ (Suc attempt + n')) m\<bar>
            \<le> (1 / 4) * \<bar>min (i * b ^ (Suc attempt + n')) m\<bar> \<and>
          (\<not> j \<longrightarrow> fst (?R None (Suc attempt)) ! n' = min (i * b ^ (Suc attempt + n')) m)"
        using "1.IH" [OF n1 e(2) nn n2 refl refl "1.prems"(1) l'] unfolding eq .
      have nth: "fst (?R lst attempt) ! n = fst (?R None (Suc attempt)) ! n'"
        unfolding st Suc by simp
      have ix: "attempt + n = Suc attempt + n'" unfolding Suc by simp
      show ?thesis unfolding nth ix using ih .
    qed
  qed
qed

lemma retry_prefix:
  assumes "\<forall>j<k. \<exists>x. func j = Raises x \<and> is_rate_limit_error x" "int k \<le> max_retries"
  shows "length (fst (retry_with_backoff_from func rnd max_retries i b m jit None 0)) =
           k + length (fst (retry_with_backoff_from func rnd max_retries i b m jit None k)) \<and>
         snd (retry_with_backoff_from func rnd max_retries i b m jit None 0) =
           snd (retry_with_backoff_from func rnd max_retries i b m jit None k)"
  using assms
proof (induction k)
  case 0
  then show ?case by simp
next
  case (Suc k)
  then obtain x where x: "func k = Raises x" "is_rate_limit_error x" by blast
  have lt: "int k < max_retries" using Suc.prems(2) by simp
  from Suc have IH: "length (fst (retry_with_backoff_from func rnd max_retries i b m jit None 0)) =
           k + length (fst (retry_with_backoff_from func rnd max_retries i b m jit None k)) \<and>
         snd (retry_with_backoff_from func rnd max_retries i b m jit None 0) =
           snd (retry_with_backoff_from func rnd max_retries i b m jit None k)"
    by simp
  show ?case
    using IH unfolding retry_step [where func = func and attempt = k and e = x and rnd = rnd
        and i = i and b = b and m = m and j = jit and lst = None and max_retries = max_retries,
        OF lt x]
    by simp
qed


text \<open>
  Claim C7: in \<^verbatim>\<open>retry_with_backoff\<close>, with every draw of \<^verbatim>\<open>random()\<close> in the unit
  interval: an exception that is not a rate-limit error, raised at attempt \<open>k\<close> after \<open>k\<close>
  rate-limit errors, is raised again as it is, and only the \<open>k\<close> delays of the earlier
  failures were slept (no retry follows it); the delay slept after the failure of attempt
  \<open>k\<close> (attempts count from 0) is within a quarter of \<open>min (initial * factor ^ k) max\<close> of
  that value, and equal to it without jitter; when every attempt up to \<open>max_retries\<close>
  fails with a rate-limit error, \<open>RateLimitError\<close> is raised after \<open>max_retries\<close> delays;
  a call that returns ends the wrapper with its value; and the defaults are 3 retries,
  an initial delay of 1, a factor of 2, a maximum of 30, with jitter.
\<close>

theorem retry_with_backoff_policy:
  assumes "\<forall>k. 0 \<le> rnd k \<and> rnd k \<le> 1"
  shows
   "(\<forall>k e. int k \<le> max_retries \<and> (\<forall>j<k. \<exists>x. func j = Raises x \<and> is_rate_limit_error x) \<and>
           func k = Raises e \<and> \<not> is_rate_limit_error e \<longrightarrow>
       snd (retry_with_backoff func rnd max_retries initial_delay backoff_factor max_delay jitter)
         = Reraised e \<and>
       length (fst (retry_with_backoff func rnd max_retries initial_delay backoff_factor
                      max_delay jitter)) = k) \<and>
    (\<forall>k < length (fst (retry_with_backoff func rnd max_retries initial_delay backoff_factor
                          max_delay jitter)).
       \<bar>fst (retry_with_backoff func rnd max_retries initial_delay backoff_factor max_delay
               jitter) ! k
          - min (initial_delay * backoff_factor ^ k) max_delay\<bar>
         \<le> (1 / 4) * \<bar>min (initial_delay * backoff_factor ^ k) max_delay\<bar> \<and>
       (\<not> jitter \<longrightarrow>
          fst (retry_with_backoff func rnd max_retries initial_delay backoff_factor max_delay
                 jitter) ! k
            = min (initial_delay * backoff_factor ^ k) max_delay)) \<and>
    (0 \<le> max_retries \<and>
     (\<forall>j. int j \<le> max_retries \<longrightarrow> (\<exists>x. func j = Raises x \<and> is_rate_limit_error x)) \<longrightarrow>
       (\<exists>x. func (nat max_retries) = Raises x \<and>
            snd (retry_with_backoff func rnd max_retries initial_delay backoff_factor max_delay
                   jitter) = RateLimitError max_retries x) \<and>
       length (fst (retry_with_backoff func rnd max_retries initial_delay backoff_factor
                      max_delay jitter)) = nat max_retries) \<and>
    (\<forall>k v. int k \<le> max_retries \<and> (\<forall>j<k. \<exists>x. func j = Raises x \<and> is_rate_limit_error x) \<and>
           func k = Returns v \<longrightarrow>
       snd (retry_with_backoff func rnd max_retries initial_delay backoff_factor max_delay jitter)
         = Returned v \<and>
       length (fst (retry_with_backoff func rnd max_retries initial_delay backoff_factor
                      max_delay jitter)) = k) \<and>
    retry_with_backoff_default func rnd = retry_with_backoff func rnd 3 1 2 30 True"
proof -
  let ?F = "retry_with_backoff_from func rnd max_retries initial_delay backoff_factor
              max_delay jitter None"
  have R: "retry_with_backoff func rnd max_retries initial_delay backoff_factor max_delay jitter
             = ?F 0"
    by (simp add: retry_with_backoff_def)
  have a: "snd (?F 0) = Reraised e \<and> length (fst (?F 0)) = k"
    if h: "int k \<le> max_retries" "\<forall>j<k. \<exists>x. func j = Raises x \<and> is_rate_limit_error x"
          "func k = Raises e" "\<not> is_rate_limit_error e" for k e
  proof -
    have "?F k = ([], Reraised e)"
      using h(1,3,4) by (subst retry_with_backoff_from.simps) simp
    with retry_prefix [OF h(2) h(1), of rnd initial_delay backoff_factor max_delay jitter]
    show ?thesis by simp
  qed
  have b: "\<bar>fst (?F 0) ! k - min (initial_delay * backoff_factor ^ k) max_delay\<bar>
         \<le> (1 / 4) * \<bar>min (initial_delay * backoff_factor ^ k) max_delay\<bar> \<and>
       (\<not> jitter \<longrightarrow> fst (?F 0) ! k = min (initial_delay * backoff_factor ^ k) max_delay)"
    if "k < length (fst (?F 0))" for k
    using retry_sleeps_bound [OF assms that] by simp
  have c: "(\<exists>x. func (nat max_retries) = Raises x \<and>
               snd (?F 0) = RateLimitError max_retries x) \<and>
           length (fst (?F 0)) = nat max_retries"
    if h: "0 \<le> max_retries"
       "\<forall>j. int j \<le> max_retries \<longrightarrow> (\<exists>x. func j = Raises x \<and> is_rate_limit_error x)"
  proof -
    have k: "int (nat max_retries) \<le> max_retries" using h(1) by simp
    have p: "\<forall>j<nat max_retries. \<exists>x. func j = Raises x \<and> is_rate_limit_error x"
      using h by auto
    from h(2) k obtain x where x: "func (nat max_retries) = Raises x" "is_rate_limit_error x"
      by blast
    have "?F (nat max_retries) = ([], RateLimitError max_retries x)"
      using h(1) x by (subst retry_with_backoff_from.simps) simp
    with retry_prefix [OF p k, of rnd initial_delay backoff_factor max_delay jitter] x(1)
    show ?thesis by simp
  qed
  have d: "snd (?F 0) = Returned v \<and> length (fst (?F 0)) = k"
    if h: "int k \<le> max_retries" "\<forall>j<k. \<exists>x. func j = Raises x \<and> is_rate_limit_error x"
          "func k = Returns v" for k v
  proof -
    have "?F k = ([], Returned v)"
      using h(1,3) by (subst retry_with_backoff_from.simps) simp
    with retry_prefix [OF h(2) h(1), of rnd initial_delay backoff_factor max_delay jitter]
    show ?thesis by simp
  qed
  have e: "retry_with_backoff_default func rnd = retry_with_backoff func rnd 3 1 2 30 True"
    by (simp add: retry_with_backoff_default_def)
  show ?thesis
    unfolding R using a b c d e [unfolded retry_with_backoff_def] 
    by (simp add: retry_with_backoff_def) blast
qed

text \<open>With the defaults and every draw at one half: four rate-limit errors in a row end in
  \<open>RateLimitError\<close> after three delays; a rate-limit error and then a connection error
  end with the connection error after one delay, which is within 0.25 of 1.\<close>

theorem retry_with_backoff_witness:
  "snd (retry_with_backoff_default (\<lambda>k. Raises ''HTTP 429'' :: nat outcome) (\<lambda>k. 1 / 2))
     = RateLimitError 3 ''HTTP 429'' \<and>
   length (fst (retry_with_backoff_default (\<lambda>k. Raises ''HTTP 429'' :: nat outcome) (\<lambda>k. 1 / 2)))
     = 3 \<and>
   snd (retry_with_backoff_default
          (\<lambda>k. if k = 0 then Raises ''HTTP 429'' else (Raises ''connection reset'' :: nat outcome))
          (\<lambda>k. 1 / 2)) = Reraised ''connection reset'' \<and>
   length (fst (retry_with_backoff_default
          (\<lambda>k. if k = 0 then Raises ''HTTP 429'' else (Raises ''connection reset'' :: nat outcome))
          (\<lambda>k. 1 / 2))) = 1 \<and>
   \<bar>fst (retry_with_backoff_default
          (\<lambda>k. if k = 0 then Raises ''HTTP 429'' else (Raises ''connection reset'' :: nat outcome))
          (\<lambda>k. 1 / 2)) ! 0 - 1\<bar> \<le> 1 / 4"
proof -
  have r: "\<forall>k :: nat. (0 :: rat) \<le> 1 / 2 \<and> (1 / 2 :: rat) \<le> 1" by simp
  have l: "is_rate_limit_error ''HTTP 429''"
    by (simp add: is_rate_limit_error_def lower_def lower_char_def)
  have n: "\<not> is_rate_limit_error ''connection reset''"
    by (simp add: is_rate_limit_error_def lower_def lower_char_def)
  note t1 = retry_with_backoff_policy [OF r, of 3 "\<lambda>k. Raises ''HTTP 429'' :: nat outcome" 1 2 30 True]
  note t2 = retry_with_backoff_policy [OF r, of 3
      "\<lambda>k. if k = 0 then Raises ''HTTP 429'' else (Raises ''connection reset'' :: nat outcome)"
      1 2 30 True]
  from t1 l have w1: "snd (retry_with_backoff_default (\<lambda>k. Raises ''HTTP 429'' :: nat outcome) (\<lambda>k. 1 / 2))
     = RateLimitError 3 ''HTTP 429'' \<and>
   length (fst (retry_with_backoff_default (\<lambda>k. Raises ''HTTP 429'' :: nat outcome) (\<lambda>k. 1 / 2)))
     = 3"
    by simp
  have w2: "snd (retry_with_backoff
          (\<lambda>k. if k = 0 then Raises ''HTTP 429'' else (Raises ''connection reset'' :: nat outcome))
          (\<lambda>k. 1 / 2) 3 1 2 30 True) = Reraised ''connection reset'' \<and>
       length (fst (retry_with_backoff
          (\<lambda>k. if k = 0 then Raises ''HTTP 429'' else (Raises ''connection reset'' :: nat outcome))
          (\<lambda>k. 1 / 2) 3 1 2 30 True)) = 1"
    using t2 [THEN conjunct1, rule_format, of 1 "''connection reset''"] l n by simp
  have w3: "\<bar>fst (retry_with_backoff
          (\<lambda>k. if k = 0 then Raises ''HTTP 429'' else (Raises ''connection reset'' :: nat outcome))
          (\<lambda>k. 1 / 2) 3 1 2 30 True) ! 0 - 1\<bar> \<le> 1 / 4"
    using t2 [THEN conjunct2, THEN conjunct1, rule_format, of 0] w2 by simp
  from w1 w2 w3 show ?thesis by (simp add: retry_with_backoff_default_def)
qed

subsection \<open>Saving the state file\<close>

declare save_from.simps [simp del]

lemma save_from_3: "save_from outcome f 3 (Suc (Suc (Suc 0))) = ([], False)"
  by (subst save_from.simps) simp

lemma save_from_2:
  "save_from outcome f 3 (Suc (Suc 0)) =
     (case outcome (Suc (Suc 0)) of
        Written \<Rightarrow> ([WriteFile (f @ ''.tmp''), Replace (f @ ''.tmp'') f], True)
      | WriteRaises e \<Rightarrow> ([WriteFile (f @ ''.tmp'')], False)
      | ReplaceRaises e \<Rightarrow> ([WriteFile (f @ ''.tmp''), Replace (f @ ''.tmp'') f], False))"
  by (subst save_from.simps)
     (simp add: save_except_def save_from_3 Let_def
        split: attempt_outcome.splits exn.splits)

lemma save_from_1:
  "save_from outcome f 3 (Suc 0) =
     (case outcome (Suc 0) of
        Written \<Rightarrow> ([WriteFile (f @ ''.tmp''), Replace (f @ ''.tmp'') f], True)
      | WriteRaises e \<Rightarrow>
          if e = OSError 16
          then (WriteFile (f @ ''.tmp'') # Sleep (1 / 5) # fst (save_from outcome f 3 (Suc (Suc 0))),
                snd (save_from outcome f 3 (Suc (Suc 0))))
          else ([WriteFile (f @ ''.tmp'')], False)
      | ReplaceRaises e \<Rightarrow>
          if e = OSError 16
          then (WriteFile (f @ ''.tmp'') # Replace (f @ ''.tmp'') f # Sleep (1 / 5)
                  # fst (save_from outcome f 3 (Suc (Suc 0))),
                snd (save_from outcome f 3 (Suc (Suc 0))))
          else ([WriteFile (f @ ''.tmp''), Replace (f @ ''.tmp'') f], False))"
  by (subst save_from.simps)
     (simp add: save_except_def Let_def
        split: attempt_outcome.splits exn.splits)

lemma save_from_0:
  "save_from outcome f 3 0 =
     (case outcome 0 of
        Written \<Rightarrow> ([WriteFile (f @ ''.tmp''), Replace (f @ ''.tmp'') f], True)
      | WriteRaises e \<Rightarrow>
          if e = OSError 16
          then (WriteFile (f @ ''.tmp'') # Sleep (1 / 10) # fst (save_from outcome f 3 (Suc 0)),
                snd (save_from outcome f 3 (Suc 0)))
          else ([WriteFile (f @ ''.tmp'')], False)
      | ReplaceRaises e \<Rightarrow>
          if e = OSError 16
          then (WriteFile (f @ ''.tmp'') # Replace (f @ ''.tmp'') f # Sleep (1 / 10)
                  # fst (save_from outcome f 3 (Suc 0)),
                snd (save_from outcome f 3 (Suc 0)))
          else ([WriteFile (f @ ''.tmp''), Replace (f @ ''.tmp'') f], False))"
  by (subst save_from.simps)
     (simp add: save_except_def Let_def
        split: attempt_outcome.splits exn.splits)

text \<open>
  Claim C6 fails on the code: a save whose first attempt succeeds writes the temporary
  file and replaces the target, and no \<^verbatim>\<open>fsync\<close> is called on the way.
\<close>

theorem save_without_fsync:
  "save_file (\<lambda>k. Written) ''bot_state.json'' =
     ([WriteFile ''bot_state.json.tmp'', Replace ''bot_state.json.tmp'' ''bot_state.json''], True) \<and>
   Fsync ''bot_state.json.tmp'' \<notin> set (fst (save_file (\<lambda>k. Written) ''bot_state.json''))"
  by (simp add: save_file_def save_from_0)

lemma save_2_facts:
  "(\<forall>p. Fsync p \<notin> set (fst (save_from outcome f 3 (Suc (Suc 0))))) \<and>
   sleeps_of (fst (save_from outcome f 3 (Suc (Suc 0)))) = [] \<and>
   length (filter (\<lambda>op. op = WriteFile (f @ ''.tmp'')) (fst (save_from outcome f 3 (Suc (Suc 0))))) = 1 \<and>
   (snd (save_from outcome f 3 (Suc (Suc 0))) \<longrightarrow>
      (\<exists>pre. fst (save_from outcome f 3 (Suc (Suc 0)))
         = pre @ [WriteFile (f @ ''.tmp''), Replace (f @ ''.tmp'') f]))"
  by (auto simp: save_from_2 split: attempt_outcome.splits)

lemma save_1_facts:
  "(\<forall>p. Fsync p \<notin> set (fst (save_from outcome f 3 (Suc 0)))) \<and>
   sleeps_of (fst (save_from outcome f 3 (Suc 0))) \<in> {[], [1 / 5]} \<and>
   length (filter (\<lambda>op. op = WriteFile (f @ ''.tmp'')) (fst (save_from outcome f 3 (Suc 0)))) \<in> {1, 2} \<and>
   (snd (save_from outcome f 3 (Suc 0)) \<longrightarrow>
      (\<exists>pre. fst (save_from outcome f 3 (Suc 0))
         = pre @ [WriteFile (f @ ''.tmp''), Replace (f @ ''.tmp'') f]))"
proof -
  note s = save_2_facts [of outcome f]
  have ap: "\<And>x pre y. y = pre @ [WriteFile (f @ ''.tmp''), Replace (f @ ''.tmp'') f] \<Longrightarrow>
     \<exists>pre'. x # y = pre' @ [WriteFile (f @ ''.tmp''), Replace (f @ ''.tmp'') f]"
    by (metis append_Cons)
  show ?thesis
    using s by (auto simp: save_from_1 split: attempt_outcome.splits intro: ap)
qed


lemma save_0_facts:
  "(\<forall>p. Fsync p \<notin> set (fst (save_from outcome f 3 0))) \<and>
   sleeps_of (fst (save_from outcome f 3 0)) \<in> {[], [1 / 10], [1 / 10, 1 / 5]} \<and>
   length (filter (\<lambda>op. op = WriteFile (f @ ''.tmp'')) (fst (save_from outcome f 3 0)))
     \<in> {1, 2, 3} \<and>
   (snd (save_from outcome f 3 0) \<longrightarrow>
      (\<exists>pre. fst (save_from outcome f 3 0)
         = pre @ [WriteFile (f @ ''.tmp''), Replace (f @ ''.tmp'') f]))"
proof -
  note s = save_1_facts [of outcome f]
  have ap: "\<And>x pre y. y = pre @ [WriteFile (f @ ''.tmp''), Replace (f @ ''.tmp'') f] \<Longrightarrow>
     \<exists>pre'. x # y = pre' @ [WriteFile (f @ ''.tmp''), Replace (f @ ''.tmp'') f]"
    by (metis append_Cons)
  show ?thesis
    using s by (auto simp: save_from_0 split: attempt_outcome.splits intro: ap)
qed

text \<open>
  Claim C6, amended: every save writes the state to \<^verbatim>\<open><state_file>.tmp\<close> and renames it
  over the target, and never calls \<^verbatim>\<open>fsync\<close>. An attempt that succeeds ends the save. An
  attempt that raises \<^verbatim>\<open>OSError\<close> with errno 16 is followed by another attempt, after a
  sleep of 0.1 s behind the first attempt and of 0.2 s behind the second; the third
  attempt is the last. Any other exception ends the save at once, at whichever attempt
  it is raised, with no sleep and no further attempt. The seven cases give the whole
  list of calls of every save.
\<close>

theorem save_file_policy:
  "(\<forall>p. Fsync p \<notin> set (fst (save_file outcome f))) \<and>
   (outcome 0 = Written \<longrightarrow>
      save_file outcome f = ([WriteFile (f @ ''.tmp''), Replace (f @ ''.tmp'') f], True)) \<and>
   (\<forall>e. raised (outcome 0) = Some e \<and> e \<noteq> OSError 16 \<longrightarrow>
      save_file outcome f = (attempt_calls f (outcome 0), False)) \<and>
   (raised (outcome 0) = Some (OSError 16) \<and> outcome 1 = Written \<longrightarrow>
      save_file outcome f =
        (attempt_calls f (outcome 0) @ [Sleep (1 / 10)] @
         [WriteFile (f @ ''.tmp''), Replace (f @ ''.tmp'') f], True)) \<and>
   (\<forall>e. raised (outcome 0) = Some (OSError 16) \<and> raised (outcome 1) = Some e \<and>
        e \<noteq> OSError 16 \<longrightarrow>
      save_file outcome f =
        (attempt_calls f (outcome 0) @ [Sleep (1 / 10)] @ attempt_calls f (outcome 1), False)) \<and>
   (raised (outcome 0) = Some (OSError 16) \<and> raised (outcome 1) = Some (OSError 16) \<and>
    outcome 2 = Written \<longrightarrow>
      save_file outcome f =
        (attempt_calls f (outcome 0) @ [Sleep (1 / 10)] @
         attempt_calls f (outcome 1) @ [Sleep (1 / 5)] @
         [WriteFile (f @ ''.tmp''), Replace (f @ ''.tmp'') f], True)) \<and>
   (\<forall>e. raised (outcome 0) = Some (OSError 16) \<and> raised (outcome 1) = Some (OSError 16) \<and>
        raised (outcome 2) = Some e \<longrightarrow>
      save_file outcome f =
        (attempt_calls f (outcome 0) @ [Sleep (1 / 10)] @
         attempt_calls f (outcome 1) @ [Sleep (1 / 5)] @
         attempt_calls f (outcome 2), False))"
proof -
  have two: "(2 :: nat) = Suc (Suc 0)" by simp
  have a: "\<forall>p. Fsync p \<notin> set (fst (save_file outcome f))"
    using save_0_facts [of outcome f] by (simp add: save_file_def)
  have b: "outcome 0 = Written \<longrightarrow>
      save_file outcome f = ([WriteFile (f @ ''.tmp''), Replace (f @ ''.tmp'') f], True)"
    by (simp add: save_file_def save_from_0)
  have c: "\<forall>e. raised (outcome 0) = Some e \<and> e \<noteq> OSError 16 \<longrightarrow>
      save_file outcome f = (attempt_calls f (outcome 0), False)"
    by (cases "outcome 0") (auto simp: save_file_def save_from_0)
  have d: "raised (outcome 0) = Some (OSError 16) \<and> outcome 1 = Written \<longrightarrow>
      save_file outcome f =
        (attempt_calls f (outcome 0) @ [Sleep (1 / 10)] @
         [WriteFile (f @ ''.tmp''), Replace (f @ ''.tmp'') f], True)"
    by (cases "outcome 0") (auto simp: save_file_def save_from_0 save_from_1)
  have e: "\<forall>e. raised (outcome 0) = Some (OSError 16) \<and> raised (outcome 1) = Some e \<and>
        e \<noteq> OSError 16 \<longrightarrow>
      save_file outcome f =
        (attempt_calls f (outcome 0) @ [Sleep (1 / 10)] @ attempt_calls f (outcome 1), False)"
    by (cases "outcome 0"; cases "outcome (Suc 0)")
       (auto simp: save_file_def save_from_0 save_from_1)
  have g: "raised (outcome 0) = Some (OSError 16) \<and> raised (outcome 1) = Some (OSError 16) \<and>
    outcome 2 = Written \<longrightarrow>
      save_file outcome f =
        (attempt_calls f (outcome 0) @ [Sleep (1 / 10)] @
         attempt_calls f (outcome 1) @ [Sleep (1 / 5)] @
         [WriteFile (f @ ''.tmp''), Replace (f @ ''.tmp'') f], True)"
    unfolding two
    by (cases "outcome 0"; cases "outcome (Suc 0)")
       (auto simp: save_file_def save_from_0 save_from_1 save_from_2)
  have h: "\<forall>e. raised (outcome 0) = Some (OSError 16) \<and> raised (outcome 1) = Some (OSError 16) \<and>
        raised (outcome 2) = Some e \<longrightarrow>
      save_file outcome f =
        (attempt_calls f (outcome 0) @ [Sleep (1 / 10)] @
         attempt_calls f (outcome 1) @ [Sleep (1 / 5)] @
         attempt_calls f (outcome 2), False)"
    unfolding two
    by (cases "outcome 0"; cases "outcome (Suc 0)"; cases "outcome (Suc (Suc 0))")
       (auto simp: save_file_def save_from_0 save_from_1 save_from_2)
  from a b c d e g h show ?thesis by blast
qed

text \<open>Two attempts failing with errno 16 and a third that succeeds: three writes, the
  sleeps of 0.1 s and 0.2 s between them, one rename. A first attempt failing with errno
  13: one write, nothing else. A first attempt failing with errno 16 and a second whose
  rename fails with errno 13: the save ends there, after one sleep.\<close>

theorem save_file_witness:
  "save_file (\<lambda>k. if k < 2 then WriteRaises (OSError 16) else Written) ''bot_state.json'' =
     ([WriteFile ''bot_state.json.tmp'', Sleep (1 / 10),
       WriteFile ''bot_state.json.tmp'', Sleep (1 / 5),
       WriteFile ''bot_state.json.tmp'', Replace ''bot_state.json.tmp'' ''bot_state.json''],
      True) \<and>
   save_file (\<lambda>k. WriteRaises (OSError 13)) ''bot_state.json'' =
     ([WriteFile ''bot_state.json.tmp''], False) \<and>
   save_file (\<lambda>k. if k = 0 then WriteRaises (OSError 16) else ReplaceRaises (OSError 13))
       ''bot_state.json'' =
     ([WriteFile ''bot_state.json.tmp'', Sleep (1 / 10),
       WriteFile ''bot_state.json.tmp'', Replace ''bot_state.json.tmp'' ''bot_state.json''],
      False)"
  using
    save_file_policy [of "\<lambda>k. if k < 2 then WriteRaises (OSError 16) else Written"
       "''bot_state.json''"]
    save_file_policy [of "\<lambda>k. WriteRaises (OSError 13)" "''bot_state.json''"]
    save_file_policy [of
       "\<lambda>k. if k = 0 then WriteRaises (OSError 16) else ReplaceRaises (OSError 13)"
       "''bot_state.json''"]
  by simp

subsection \<open>The state manager\<close>

lemma written_save [simp]: "written (save mgr) = written mgr @ [mem mgr]"
  by (simp add: save_def)

lemma mem_save [simp]: "mem (save mgr) = mem mgr"
  by (simp add: save_def)

lemma written_set_state [simp]:
  "written (set_state s mgr) = written mgr @ [(mem mgr)\<lparr> state := s \<rparr>]"
  by (simp add: set_state_def)

lemma mem_set_state [simp]: "mem (set_state s mgr) = (mem mgr)\<lparr> state := s \<rparr>"
  by (simp add: set_state_def)

lemma written_set_current_position [simp]:
  "written (set_current_position p mgr) = written mgr"
  by (simp add: set_current_position_def)

lemma mem_set_current_position [simp]:
  "mem (set_current_position p mgr) = (mem mgr)\<lparr> current_position := p \<rparr>"
  by (simp add: set_current_position_def)

subsection \<open>Recovery on startup\<close>





subsection \<open>Stop-loss\<close>

lemma written_enter_error [simp]:
  "written (enter_error msg mgr) =
     written mgr @ [(mem mgr)\<lparr> state := ERROR \<rparr>,
                    (mem mgr)\<lparr> state := ERROR, last_error := Some msg \<rparr>]"
  by (simp add: enter_error_def Let_def)

lemma mem_enter_error [simp]:
  "mem (enter_error msg mgr) = (mem mgr)\<lparr> state := ERROR, last_error := Some msg \<rparr>"
  by (simp add: enter_error_def Let_def)






lemma refresh_table_mem:
  "state (mem (refresh_table cfg it p mgr)) = state (mem mgr) \<and>
   completed_cycles (mem (refresh_table cfg it p mgr)) = completed_cycles (mem mgr) \<and>
   (\<exists>new. written (refresh_table cfg it p mgr) = written mgr @ new \<and>
          (\<forall>b \<in> set new. state b = state (mem mgr) \<and> current_position b \<noteq> None))"
  by (auto simp: refresh_table_def Let_def)





subsection \<open>Written states\<close>

lemma analyze_and_open_writes:
  "\<exists>new. written (analyze_and_open cfg it mgr) = written mgr @ new \<and>
         (\<forall>b \<in> set new. state b = HOLDING \<longrightarrow> current_position b \<noteq> None)"
  by (auto simp: analyze_and_open_def Let_def split: list.splits sum.splits)

lemma timer_close_writes:
  "\<exists>new. written (timer_close it p mgr) = written mgr @ new \<and>
         (\<forall>b \<in> set new. state b = HOLDING \<longrightarrow> current_position b \<noteq> None)"
  by (auto simp: timer_close_def Let_def split: option.splits)

lemma stop_loss_close_writes:
  "\<exists>new. written (stop_loss_close it p w pct ex mgr) = written mgr @ new \<and>
         (\<forall>b \<in> set new. state b = HOLDING \<longrightarrow> current_position b \<noteq> None)"
  by (auto simp: stop_loss_close_def Let_def split: option.splits)

lemma refresh_table_writes:
  "\<exists>new. written (refresh_table cfg it p mgr) = written mgr @ new \<and>
         (\<forall>b \<in> set new. state b = HOLDING \<longrightarrow> current_position b \<noteq> None)"
  using refresh_table_mem [of cfg it p mgr] by blast

lemma holding_writes:
  "\<exists>new. written (holding cfg it mgr) = written mgr @ new \<and>
         (\<forall>b \<in> set new. state b = HOLDING \<longrightarrow> current_position b \<noteq> None)"
proof (cases "current_position (mem mgr)")
  case None
  then show ?thesis by (simp add: holding_def)
next
  case (Some p)
  show ?thesis
  proof (cases "now it \<ge> pos_target_close_at p")
    case True
    then show ?thesis using Some timer_close_writes [of it p mgr] by (simp add: holding_def)
  next
    case False
    show ?thesis
    proof (cases "case pnls it of Inl e \<Rightarrow> None
                   | Inr (aster_pnl, lighter_pnl) \<Rightarrow>
                       stop_loss_check cfg p aster_pnl lighter_pnl")
      case None
      then show ?thesis
        using Some False refresh_table_writes [of cfg it p mgr] by (simp add: holding_def)
    next
      case (Some t)
      obtain w pct ex where t: "t = (w, pct, ex)" by (cases t) auto
      show ?thesis
        using \<open>current_position (mem mgr) = Some p\<close> False Some t
          stop_loss_close_writes [of it p w pct ex mgr]
        by (simp add: holding_def)
    qed
  qed
qed

lemma main_loop_iteration_writes:
  "\<exists>new. written (main_loop_iteration cfg it mgr) = written mgr @ new \<and>
         (\<forall>b \<in> set new. state b = HOLDING \<longrightarrow> current_position b \<noteq> None)"
  using analyze_and_open_writes [of cfg it mgr] holding_writes [of cfg it mgr]
  by (auto simp: main_loop_iteration_def Let_def)

lemma main_loop_writes:
  "\<exists>new. written (main_loop cfg its mgr) = written mgr @ new \<and>
         (\<forall>b \<in> set new. state b = HOLDING \<longrightarrow> current_position b \<noteq> None)"
proof (induction its arbitrary: mgr)
  case Nil
  then show ?case by simp
next
  case (Cons it its)
  from main_loop_iteration_writes [of cfg it mgr] obtain n1 where
    n1: "written (main_loop_iteration cfg it mgr) = written mgr @ n1"
        "\<forall>b \<in> set n1. state b = HOLDING \<longrightarrow> current_position b \<noteq> None"
    by blast
  from Cons.IH [of "main_loop_iteration cfg it mgr"] obtain n2 where
    n2: "written (main_loop cfg its (main_loop_iteration cfg it mgr)) =
           written (main_loop_iteration cfg it mgr) @ n2"
        "\<forall>b \<in> set n2. state b = HOLDING \<longrightarrow> current_position b \<noteq> None"
    by blast
  have "written (main_loop cfg (it # its) mgr) = written mgr @ (n1 @ n2)"
    using n1(1) n2(1) by simp
  moreover have "\<forall>b \<in> set (n1 @ n2). state b = HOLDING \<longrightarrow> current_position b \<noteq> None"
    using n1(2) n2(2) by auto
  ultimately show ?case by blast
qed

lemma startup_recovery_end:
  assumes "current_position (mem mgr) \<noteq> None"
  shows "(state (mem (startup_recovery obs mgr)) = HOLDING \<longrightarrow>
            current_position (mem (startup_recovery obs mgr)) \<noteq> None) \<and>
         (written (startup_recovery obs mgr) \<noteq> written mgr \<longrightarrow>
            last (written (startup_recovery obs mgr)) = mem (startup_recovery obs mgr))"
  using assms
  by (auto simp: startup_recovery_def verify_and_recover_position_def clear_position_def
        get_state_def Let_def split: option.splits sum.splits prod.splits if_splits)

text \<open>
  Claim C5, amended: in every bot state written by the supervisor loop, over any number
  of iterations from any state, \<^verbatim>\<open>state == HOLDING\<close> implies that \<^verbatim>\<open>current_position\<close> is
  non-null; and when startup recovery ends, for a stored position, the state in memory
  has that property and is the last state written, if any was. The converse does not
  hold: the states \<^verbatim>\<open>CLOSING\<close> and \<^verbatim>\<open>ERROR\<close> are written with the position still stored.
\<close>

theorem holding_has_position:
  "(\<forall>b \<in> set (drop (length (written mgr)) (written (main_loop cfg its mgr))).
      state b = HOLDING \<longrightarrow> current_position b \<noteq> None) \<and>
   (current_position (mem mgr) \<noteq> None \<longrightarrow>
      (state (mem (startup_recovery obs mgr)) = HOLDING \<longrightarrow>
         current_position (mem (startup_recovery obs mgr)) \<noteq> None) \<and>
      (written (startup_recovery obs mgr) \<noteq> written mgr \<longrightarrow>
         last (written (startup_recovery obs mgr)) = mem (startup_recovery obs mgr)))"
proof -
  from main_loop_writes [of cfg its mgr] obtain new where
    n: "written (main_loop cfg its mgr) = written mgr @ new"
       "\<forall>b \<in> set new. state b = HOLDING \<longrightarrow> current_position b \<noteq> None"
    by blast
  have a: "\<forall>b \<in> set (drop (length (written mgr)) (written (main_loop cfg its mgr))).
      state b = HOLDING \<longrightarrow> current_position b \<noteq> None"
    unfolding n(1) using n(2) by simp
  from a startup_recovery_end [of mgr obs] show ?thesis by blast
qed

text \<open>
  Claim C5 fails on the code in both directions. When the hold expires the loop writes
  the state \<^verbatim>\<open>CLOSING\<close> with the position stored, before it closes. And startup recovery,
  on a stored \<^verbatim>\<open>HOLDING\<close> position with no live size, first writes the state with the
  position cleared and the state still \<^verbatim>\<open>HOLDING\<close>, then sets \<^verbatim>\<open>IDLE\<close>.
\<close>

theorem persisted_without_invariant:
  "state (written (main_loop_iteration default_config (losing_iteration\<lparr> now := 9 \<rparr>)
            holding_btc) ! 0) = CLOSING \<and>
   current_position (written (main_loop_iteration default_config (losing_iteration\<lparr> now := 9 \<rparr>)
            holding_btc) ! 0) = Some btc_position \<and>
   state (written (startup_recovery (Inr (0, 0)) holding_btc) ! 0) = HOLDING \<and>
   current_position (written (startup_recovery (Inr (0, 0)) holding_btc) ! 0) = None"
  by (simp add: main_loop_iteration_def holding_def timer_close_def
        startup_recovery_def verify_and_recover_position_def clear_position_def
        get_state_def default_config_def btc_position_def holding_btc_def losing_iteration_def
        Let_def)

text \<open>A holding iteration below the stop-loss threshold refreshes the funding table and
  writes the state once: it is \<^verbatim>\<open>HOLDING\<close>, with the position.\<close>

theorem holding_has_position_witness:
  "state (hd (written (main_loop default_config
       [losing_iteration\<lparr> pnls := Inr (Some 1, Some (- 1)) \<rparr>] holding_btc))) = HOLDING \<and>
   current_position (hd (written (main_loop default_config
       [losing_iteration\<lparr> pnls := Inr (Some 1, Some (- 1)) \<rparr>] holding_btc))) \<noteq> None"
proof -
  let ?M = "main_loop default_config
       [losing_iteration\<lparr> pnls := Inr (Some 1, Some (- 1)) \<rparr>] holding_btc"
  have w: "written ?M = [(mem holding_btc)\<lparr> current_position :=
              Some (btc_position\<lparr> pos_last_table_refresh := Some 1 \<rparr>) \<rparr>]"
    by (simp add: main_loop_iteration_def holding_def stop_loss_check_def refresh_table_def
        worst_leg_def position_value_def calculate_stop_loss_percentage_def truthy_def num_def
        get_state_def default_config_def btc_position_def holding_btc_def losing_iteration_def
        Let_def)
  have s: "state (hd (written ?M)) = HOLDING"
    unfolding w by (simp add: holding_btc_def)
  have m: "hd (written ?M) \<in> set (drop (length (written holding_btc)) (written ?M))"
    unfolding w by (simp add: holding_btc_def)
  from holding_has_position [of holding_btc default_config
        "[losing_iteration\<lparr> pnls := Inr (Some 1, Some (- 1)) \<rparr>]"] m s
  show ?thesis by blast
qed

end
